theory Spec2Isabelle
  imports Complex_Main "HOL-Library.Log_Nat"
begin

section \<open>Python numbers\<close>

text \<open>
  A Python \<^verbatim>\<open>float\<close> is modelled by its value: a real number, one of the two
  infinities, or NaN. Where a float only flows into other floats, rounding and
  overflow of finite results are not modelled (a finite operation returns the
  exact real); where an integer is read off a computed float (the active tokens
  of the MoE estimator), the operation rounds to the nearest double as IEEE 754
  does. The sign of zero is dropped.
  Everything else follows Python: comparisons with NaN are false, \<^verbatim>\<open>/\<close> raises
  \<^verbatim>\<open>ZeroDivisionError\<close> on a zero divisor, \<^verbatim>\<open>int()\<close> truncates toward zero and
  raises on infinities and NaN. Python's unbounded \<^verbatim>\<open>int\<close> is \<^typ>\<open>int\<close>, and an
  \<^verbatim>\<open>int\<close> used where a float is expected is embedded exactly.
\<close>

datatype pyfloat = Fin real | PInf | NInf | NaN

datatype pyerr = ValueError | OverflowError | ZeroDivisionError

fun is_nan :: "pyfloat \<Rightarrow> bool" where
  "is_nan NaN = True"
| "is_nan _ = False"

fun is_finite :: "pyfloat \<Rightarrow> bool" where
  "is_finite (Fin _) = True"
| "is_finite _ = False"

text \<open>The real value of a finite float (0 for the others); used to state sums.\<close>

fun fval :: "pyfloat \<Rightarrow> real" where
  "fval (Fin r) = r"
| "fval _ = 0"

text \<open>\<^verbatim>\<open>a < b\<close> on floats.\<close>

fun flt :: "pyfloat \<Rightarrow> pyfloat \<Rightarrow> bool" where
  "flt NaN _ = False"
| "flt _ NaN = False"
| "flt (Fin a) (Fin b) = (a < b)"
| "flt (Fin _) PInf = True"
| "flt (Fin _) NInf = False"
| "flt PInf _ = False"
| "flt NInf NInf = False"
| "flt NInf _ = True"

text \<open>\<^verbatim>\<open>a > b\<close> and \<^verbatim>\<open>a <= b\<close> on floats.\<close>

definition fgt :: "pyfloat \<Rightarrow> pyfloat \<Rightarrow> bool" where
  "fgt a b = flt b a"

definition fle :: "pyfloat \<Rightarrow> pyfloat \<Rightarrow> bool" where
  "fle a b = (flt a b \<or> (a = b \<and> a \<noteq> NaN))"

text \<open>\<^verbatim>\<open>a + b\<close> and \<^verbatim>\<open>a * b\<close> on floats.\<close>

fun fadd :: "pyfloat \<Rightarrow> pyfloat \<Rightarrow> pyfloat" where
  "fadd NaN _ = NaN"
| "fadd _ NaN = NaN"
| "fadd (Fin a) (Fin b) = Fin (a + b)"
| "fadd (Fin _) PInf = PInf"
| "fadd (Fin _) NInf = NInf"
| "fadd PInf NInf = NaN"
| "fadd PInf _ = PInf"
| "fadd NInf PInf = NaN"
| "fadd NInf _ = NInf"

fun inf_of_sign :: "real \<Rightarrow> pyfloat" where
  "inf_of_sign a = (if 0 < a then PInf else if a < 0 then NInf else NaN)"

fun fmul :: "pyfloat \<Rightarrow> pyfloat \<Rightarrow> pyfloat" where
  "fmul NaN _ = NaN"
| "fmul _ NaN = NaN"
| "fmul (Fin a) (Fin b) = Fin (a * b)"
| "fmul (Fin a) PInf = inf_of_sign a"
| "fmul (Fin a) NInf = inf_of_sign (- a)"
| "fmul PInf (Fin b) = inf_of_sign b"
| "fmul NInf (Fin b) = inf_of_sign (- b)"
| "fmul PInf PInf = PInf"
| "fmul PInf NInf = NInf"
| "fmul NInf PInf = NInf"
| "fmul NInf NInf = PInf"

text \<open>\<^verbatim>\<open>a / b\<close>: Python checks the divisor first and raises on zero.\<close>

fun fdiv :: "pyfloat \<Rightarrow> pyfloat \<Rightarrow> pyerr + pyfloat" where
  "fdiv a (Fin b) =
     (if b = 0 then Inl ZeroDivisionError
      else case a of
        Fin x \<Rightarrow> Inr (Fin (x / b))
      | PInf \<Rightarrow> Inr (inf_of_sign b)
      | NInf \<Rightarrow> Inr (inf_of_sign (- b))
      | NaN \<Rightarrow> Inr NaN)"
| "fdiv a NaN = Inr NaN"
| "fdiv (Fin _) _ = Inr (Fin 0)"
| "fdiv _ _ = Inr NaN"

text \<open>
  The builtin \<^verbatim>\<open>max(a, b)\<close> keeps its first argument unless the second is
  strictly greater.
\<close>

definition py_max :: "pyfloat \<Rightarrow> pyfloat \<Rightarrow> pyfloat" where
  "py_max a b = (if fgt b a then b else a)"

definition py_max_int :: "int \<Rightarrow> int \<Rightarrow> int" where
  "py_max_int a b = (if b > a then b else a)"

text \<open>\<^verbatim>\<open>sum(xs)\<close> starts from 0 and adds from the left.\<close>

definition py_sum :: "pyfloat list \<Rightarrow> pyfloat" where
  "py_sum xs = foldl fadd (Fin 0) xs"

text \<open>\<^verbatim>\<open>float(i)\<close> of an int and \<^verbatim>\<open>int(x)\<close> of a float.\<close>

definition float_of_int :: "int \<Rightarrow> pyfloat" where
  "float_of_int i = Fin (of_int i)"

fun int_of_float :: "pyfloat \<Rightarrow> pyerr + int" where
  "int_of_float (Fin r) = Inr (if 0 \<le> r then \<lfloor>r\<rfloor> else \<lceil>r\<rceil>)"
| "int_of_float NaN = Inl ValueError"
| "int_of_float _ = Inl OverflowError"

text \<open>
  Rounding of a real to the nearest double (IEEE 754 binary64, ties to even):
  \<open>double_exponent x\<close> is the \<open>e\<close> with \<open>2^e \<le> |x| < 2^(e+1)\<close>, the spacing of
  the doubles around \<open>x\<close> is \<open>2^(e-52)\<close> (with \<open>e\<close> at least \<open>-1022\<close>, the subnormal
  range), and a result of magnitude \<open>2^1024\<close> or more overflows to an infinity.
\<close>

definition round_half_even :: "real \<Rightarrow> int" where
  "round_half_even x =
     (let f = \<lfloor>x\<rfloor>; d = x - of_int f
      in if d < 1 / 2 then f else if 1 / 2 < d then f + 1 else if even f then f else f + 1)"

definition pow2 :: "int \<Rightarrow> real" where
  "pow2 e = (if 0 \<le> e then 2 ^ nat e else 1 / 2 ^ nat (- e))"

definition double_exponent :: "real \<Rightarrow> int" where
  "double_exponent x =
     (let a = \<bar>x\<bar>
      in if 1 \<le> a then bitlen \<lfloor>a\<rfloor> - 1
         else (let k = bitlen \<lfloor>1 / a\<rfloor> - 1 in if a * pow2 k = 1 then - k else - k - 1))"

definition round_double :: "real \<Rightarrow> pyfloat" where
  "round_double x =
     (let e = max (double_exponent x) (- 1022);
          ulp = pow2 (e - 52);
          r = of_int (round_half_even (x / ulp)) * ulp
      in if 2 ^ 1024 \<le> r then PInf else if r \<le> - (2 ^ 1024) then NInf else Fin r)"

text \<open>\<^verbatim>\<open>a * b\<close> on doubles, rounded.\<close>

fun fmul_double :: "pyfloat \<Rightarrow> pyfloat \<Rightarrow> pyfloat" where
  "fmul_double (Fin a) (Fin b) = round_double (a * b)"
| "fmul_double a b = fmul a b"

text \<open>
  \<^verbatim>\<open>i * x\<close> of an int and a float: the int is converted to a double first
  (\<^verbatim>\<open>OverflowError\<close> when it is too large for one), then the doubles are multiplied.
\<close>

definition py_int_times_float :: "int \<Rightarrow> pyfloat \<Rightarrow> pyerr + pyfloat" where
  "py_int_times_float i x =
     (case round_double (of_int i) of
        Fin t \<Rightarrow> Inr (fmul_double (Fin t) x)
      | _ \<Rightarrow> Inl OverflowError)"

text \<open>Sequencing of computations that may raise.\<close>

fun ebind :: "pyerr + 'a \<Rightarrow> ('a \<Rightarrow> pyerr + 'b) \<Rightarrow> pyerr + 'b" where
  "ebind (Inl e) f = Inl e"
| "ebind (Inr x) f = f x"

section \<open>Hardware description (core/data/specs.py)\<close>

record HardwareSpec =
  hw_name :: string
  peak_tflops :: pyfloat
  memory_bandwidth_gbps :: pyfloat
  hbm_gb :: pyfloat
  interconnect_gbps :: pyfloat
  max_concurrency :: int
  overlap_efficiency :: pyfloat

definition compute_throughput_tflops :: "HardwareSpec \<Rightarrow> pyfloat" where
  "compute_throughput_tflops hw = py_max (peak_tflops hw) (Fin 0)"

definition memory_bandwidth_bytes :: "HardwareSpec \<Rightarrow> pyfloat" where
  "memory_bandwidth_bytes hw = fmul (py_max (memory_bandwidth_gbps hw) (Fin 0)) (Fin (10 ^ 9))"

definition interconnect_bandwidth_bytes :: "HardwareSpec \<Rightarrow> pyfloat" where
  "interconnect_bandwidth_bytes hw = fmul (py_max (interconnect_gbps hw) (Fin 0)) (Fin (10 ^ 9))"

definition effective_overlap :: "HardwareSpec \<Rightarrow> pyfloat" where
  "effective_overlap hw = py_max (overlap_efficiency hw) (Fin (1 / 1000))"

section \<open>Metric primitives (core/ops/metrics.py)\<close>

definition matmul_flops :: "int \<Rightarrow> int \<Rightarrow> int \<Rightarrow> pyfloat" where
  "matmul_flops m n k = float_of_int (2 * m * n * k)"

definition tensor_elements :: "int list \<Rightarrow> int" where
  "tensor_elements shape = foldl (\<lambda>total dim. total * py_max_int dim 0) 1 shape"

text \<open>\<^verbatim>\<open>tensor_elements(shape) * dtype_bits / 8.0\<close>; the divisor is the constant 8.0.\<close>

definition tensor_bytes :: "int list \<Rightarrow> int \<Rightarrow> pyfloat" where
  "tensor_bytes shape dtype_bits = Fin (of_int (tensor_elements shape * dtype_bits) / 8)"

definition compute_time_ms :: "pyfloat \<Rightarrow> HardwareSpec \<Rightarrow> pyerr + pyfloat" where
  "compute_time_ms flops hw =
     (let throughput = compute_throughput_tflops hw in
      if fle throughput (Fin 0) then Inr PInf
      else ebind (fdiv flops (fmul throughput (Fin (10 ^ 12))))
             (\<lambda>seconds. Inr (fmul seconds (Fin (10 ^ 3)))))"

definition memory_time_ms :: "pyfloat \<Rightarrow> HardwareSpec \<Rightarrow> pyerr + pyfloat" where
  "memory_time_ms bytes_moved hw =
     (let bandwidth = memory_bandwidth_bytes hw in
      if fle bandwidth (Fin 0) then Inr PInf
      else ebind (fdiv bytes_moved bandwidth)
             (\<lambda>seconds. Inr (fmul seconds (Fin (10 ^ 3)))))"

definition interconnect_time_ms :: "pyfloat \<Rightarrow> HardwareSpec \<Rightarrow> pyerr + pyfloat" where
  "interconnect_time_ms bytes_moved hw =
     (let bandwidth = interconnect_bandwidth_bytes hw in
      if fle bandwidth (Fin 0) then Inr (Fin 0)
      else ebind (fdiv bytes_moved bandwidth)
             (\<lambda>seconds. Inr (fmul seconds (Fin (10 ^ 3)))))"

definition dominant_latency_ms :: "pyfloat \<Rightarrow> pyfloat \<Rightarrow> HardwareSpec \<Rightarrow> pyerr + pyfloat" where
  "dominant_latency_ms compute_ms memory_ms hw =
     (let overlap = effective_overlap hw in
      ebind (fdiv memory_ms overlap)
        (\<lambda>adjusted_memory. Inr (py_max compute_ms adjusted_memory)))"


section \<open>Fused-operation catalog (core/ops/fused_ops.py)\<close>

record FusionMetrics =
  fm_name :: string
  fm_flops :: pyfloat
  fm_bytes_accessed :: pyfloat

definition attention_qkv_projections :: "int \<Rightarrow> int \<Rightarrow> int \<Rightarrow> int \<Rightarrow> int \<Rightarrow> FusionMetrics" where
  "attention_qkv_projections batch seq d_model qkv_dim dtype_bits =
     (let tokens = batch * seq;
          flops_per = matmul_flops tokens qkv_dim d_model;
          flops = fmul (Fin 3) flops_per;
          input_bytes = tensor_bytes [batch, seq, d_model] dtype_bits;
          weight_bytes = fmul (tensor_bytes [d_model, qkv_dim] dtype_bits) (float_of_int 3);
          output_bytes = fmul (tensor_bytes [batch, seq, qkv_dim] dtype_bits) (float_of_int 3);
          total_bytes = fadd (fadd input_bytes weight_bytes) output_bytes
      in \<lparr>fm_name = ''attention_qkv_proj'', fm_flops = flops, fm_bytes_accessed = total_bytes\<rparr>)"

definition attention_scores :: "int \<Rightarrow> int \<Rightarrow> int \<Rightarrow> int \<Rightarrow> int \<Rightarrow> FusionMetrics" where
  "attention_scores batch seq num_heads head_dim dtype_bits =
     (let flops_per_head = matmul_flops seq seq head_dim;
          flops = fmul (fmul flops_per_head (float_of_int batch)) (float_of_int num_heads);
          softmax_flops = batch * num_heads * seq * seq;
          total_flops = fadd flops (float_of_int softmax_flops);
          q_bytes = tensor_bytes [batch, num_heads, seq, head_dim] dtype_bits;
          k_bytes = tensor_bytes [batch, num_heads, seq, head_dim] dtype_bits;
          attn_bytes = tensor_bytes [batch, num_heads, seq, seq] dtype_bits;
          total_bytes = fadd (fadd q_bytes k_bytes) attn_bytes
      in \<lparr>fm_name = ''attention_scores'', fm_flops = total_flops, fm_bytes_accessed = total_bytes\<rparr>)"

definition attention_weighted_sum :: "int \<Rightarrow> int \<Rightarrow> int \<Rightarrow> int \<Rightarrow> int \<Rightarrow> FusionMetrics" where
  "attention_weighted_sum batch seq num_heads head_dim dtype_bits =
     (let flops_per_head = matmul_flops seq head_dim seq;
          flops = fmul (fmul flops_per_head (float_of_int batch)) (float_of_int num_heads);
          attn_bytes = tensor_bytes [batch, num_heads, seq, seq] dtype_bits;
          v_bytes = tensor_bytes [batch, num_heads, seq, head_dim] dtype_bits;
          output_bytes = tensor_bytes [batch, seq, num_heads * head_dim] dtype_bits;
          total_bytes = fadd (fadd attn_bytes v_bytes) output_bytes
      in \<lparr>fm_name = ''attention_weighted_sum'', fm_flops = flops, fm_bytes_accessed = total_bytes\<rparr>)"

definition attention_output_projection :: "int \<Rightarrow> int \<Rightarrow> int \<Rightarrow> int \<Rightarrow> int \<Rightarrow> FusionMetrics" where
  "attention_output_projection batch seq d_model qkv_dim dtype_bits =
     (let tokens = batch * seq;
          flops = matmul_flops tokens d_model qkv_dim;
          input_bytes = tensor_bytes [batch, seq, qkv_dim] dtype_bits;
          weight_bytes = tensor_bytes [qkv_dim, d_model] dtype_bits;
          output_bytes = tensor_bytes [batch, seq, d_model] dtype_bits;
          total_bytes = fadd (fadd input_bytes weight_bytes) output_bytes
      in \<lparr>fm_name = ''attention_output_proj'', fm_flops = flops, fm_bytes_accessed = total_bytes\<rparr>)"

definition ffn_activation :: "int \<Rightarrow> int \<Rightarrow> int \<Rightarrow> int \<Rightarrow> int \<Rightarrow> FusionMetrics" where
  "ffn_activation batch seq d_model hidden_dim dtype_bits =
     (let tokens = batch * seq;
          flops_first = matmul_flops tokens hidden_dim d_model;
          flops_second = matmul_flops tokens d_model hidden_dim;
          activation_flops = tokens * hidden_dim;
          total_flops = fadd (fadd flops_first flops_second) (float_of_int activation_flops);
          input_bytes = tensor_bytes [batch, seq, d_model] dtype_bits;
          hidden_bytes = fmul (tensor_bytes [batch, seq, hidden_dim] dtype_bits) (float_of_int 2);
          weight_bytes = fadd (tensor_bytes [d_model, hidden_dim] dtype_bits)
                              (tensor_bytes [hidden_dim, d_model] dtype_bits);
          total_bytes = fadd (fadd input_bytes hidden_bytes) weight_bytes
      in \<lparr>fm_name = ''ffn'', fm_flops = total_flops, fm_bytes_accessed = total_bytes\<rparr>)"

definition moe_expert_forward :: "int \<Rightarrow> int \<Rightarrow> int \<Rightarrow> int \<Rightarrow> FusionMetrics" where
  "moe_expert_forward active_tokens d_model expert_hidden dtype_bits =
     (let flops_first = matmul_flops active_tokens expert_hidden d_model;
          flops_second = matmul_flops active_tokens d_model expert_hidden;
          activation_flops = active_tokens * expert_hidden;
          total_flops = fadd (fadd flops_first flops_second) (float_of_int activation_flops);
          act_bytes = tensor_bytes [active_tokens, d_model] dtype_bits;
          hidden_bytes = tensor_bytes [active_tokens, expert_hidden] dtype_bits;
          weight_bytes = fadd (tensor_bytes [d_model, expert_hidden] dtype_bits)
                              (tensor_bytes [expert_hidden, d_model] dtype_bits);
          total_bytes = fadd (fadd act_bytes hidden_bytes) weight_bytes
      in \<lparr>fm_name = ''moe_expert'', fm_flops = total_flops, fm_bytes_accessed = total_bytes\<rparr>)"

definition moe_routing :: "int \<Rightarrow> int \<Rightarrow> int \<Rightarrow> int \<Rightarrow> int \<Rightarrow> FusionMetrics" where
  "moe_routing batch seq num_experts top_k dtype_bits =
     (let tokens = batch * seq;
          flops = tokens * num_experts;
          select_flops = tokens * top_k;
          total_flops = flops + select_flops;
          gate_bytes = tensor_bytes [tokens, num_experts] dtype_bits
      in \<lparr>fm_name = ''moe_routing'', fm_flops = float_of_int total_flops, fm_bytes_accessed = gate_bytes\<rparr>)"

definition communication_all_to_all :: "pyfloat \<Rightarrow> FusionMetrics" where
  "communication_all_to_all bytes_per_device =
     \<lparr>fm_name = ''all_to_all'', fm_flops = Fin 0, fm_bytes_accessed = bytes_per_device\<rparr>"

definition communication_all_reduce :: "pyfloat \<Rightarrow> FusionMetrics" where
  "communication_all_reduce bytes_per_device =
     \<lparr>fm_name = ''all_reduce'', fm_flops = Fin 0, fm_bytes_accessed = bytes_per_device\<rparr>"

section \<open>Configuration mappings and results (core/data/specs.py)\<close>

text \<open>
  The loosely typed sub-configuration of a layer is a mapping from keys to numbers.
  \<^verbatim>\<open>int(v)\<close> and \<^verbatim>\<open>float(v)\<close> convert an entry; \<^verbatim>\<open>d.get(k, default)\<close> reads one.
\<close>

datatype pynum = PyInt int | PyFloat pyfloat

type_synonym pydict = "string \<rightharpoonup> pynum"

fun py_int :: "pynum \<Rightarrow> pyerr + int" where
  "py_int (PyInt i) = Inr i"
| "py_int (PyFloat x) = int_of_float x"

fun py_float :: "pynum \<Rightarrow> pyfloat" where
  "py_float (PyInt i) = float_of_int i"
| "py_float (PyFloat x) = x"

definition dget :: "('k \<rightharpoonup> 'v) \<Rightarrow> 'k \<Rightarrow> 'v \<Rightarrow> 'v" where
  "dget d k dflt = (case d k of None \<Rightarrow> dflt | Some v \<Rightarrow> v)"

text \<open>\<^verbatim>\<open>d.setdefault(k, v)\<close>: stores \<open>v\<close> only when \<open>k\<close> is absent.\<close>

definition setdefault :: "('k \<rightharpoonup> 'v) \<Rightarrow> 'k \<Rightarrow> 'v \<Rightarrow> ('k \<rightharpoonup> 'v)" where
  "setdefault d k v = (case d k of None \<Rightarrow> d(k \<mapsto> v) | Some _ \<Rightarrow> d)"

text \<open>
  The communication mapping also carries text: its two entries are kept apart,
  \<^verbatim>\<open>pattern\<close> as the string \<^verbatim>\<open>str()\<close> yields and \<^verbatim>\<open>payload_mb\<close> as a number.
\<close>

record CommDict =
  pattern_entry :: "string option"
  payload_mb_entry :: "pynum option"

record RuntimeSpec =
  batch_size :: int
  seq_len :: int
  micro_batch :: "int option"
  tokens_per_expert :: "pyfloat option"

text \<open>
  The four layer configurations share a header; the subclasses add one mapping each.
\<close>

record LayerHeader =
  lc_layer_type :: string
  lc_name :: string
  lc_layer_id :: int
  lc_attn_config :: pydict
  lc_fused_ops :: "string list"

datatype LayerConfig =
    BaseLayerConfig LayerHeader
  | FFNLayerConfig LayerHeader pydict
  | MoELayerConfig LayerHeader pydict
  | CommunicationLayerConfig LayerHeader CommDict

fun header :: "LayerConfig \<Rightarrow> LayerHeader" where
  "header (BaseLayerConfig h) = h"
| "header (FFNLayerConfig h _) = h"
| "header (MoELayerConfig h _) = h"
| "header (CommunicationLayerConfig h _) = h"

record LayerExecution =
  ex_layer_name :: string
  ex_layer_type :: string
  ex_flops :: pyfloat
  ex_bytes_read :: pyfloat
  ex_bytes_written :: pyfloat
  ex_compute_time_ms :: pyfloat
  ex_memory_time_ms :: pyfloat
  ex_dominant_latency_ms :: pyfloat
  ex_estimated_execution_time_ms :: pyfloat
  ex_features :: "string \<rightharpoonup> pyfloat"
  ex_breakdown :: "string \<rightharpoonup> (string \<rightharpoonup> pyfloat)"

record SimulationResult =
  sr_layers :: "LayerExecution list"
  sr_total_flops :: pyfloat
  sr_total_latency_ms :: pyfloat
  sr_peak_memory_bytes :: pyfloat
  sr_bottleneck_layer :: "string option"

text \<open>
  The breakdown comprehension
  \<^verbatim>\<open>{m.name: {"flops": m.flops, "bytes": m.bytes_accessed} for m in metrics}\<close>.
\<close>

definition breakdown_of :: "FusionMetrics list \<Rightarrow> (string \<rightharpoonup> (string \<rightharpoonup> pyfloat))" where
  "breakdown_of metrics =
     foldl (\<lambda>d m. d(fm_name m \<mapsto> [''flops'' \<mapsto> fm_flops m, ''bytes'' \<mapsto> fm_bytes_accessed m]))
           Map.empty metrics"


section \<open>Attention estimator (core/module/attention.py)\<close>

record AttentionConfig =
  attn_d_model :: int
  attn_num_heads :: int
  attn_head_dim :: "pynum option"
  attn_dtype_bits :: int

definition AttentionConfig_from_dict :: "pydict \<Rightarrow> pyerr + AttentionConfig" where
  "AttentionConfig_from_dict data =
     ebind (py_int (dget data ''d_model'' (PyInt 768))) (\<lambda>d_model.
     ebind (py_int (dget data ''num_attention_heads'' (dget data ''num_heads'' (PyInt 8)))) (\<lambda>num_heads.
     ebind (py_int (dget data ''dtype_bits'' (PyInt 16))) (\<lambda>dtype_bits.
     Inr \<lparr>attn_d_model = d_model, attn_num_heads = num_heads,
          attn_head_dim = data ''head_dim'', attn_dtype_bits = dtype_bits\<rparr>)))"

text \<open>\<^verbatim>\<open>a // b\<close> on ints: floor division, raising on a zero divisor.\<close>

definition py_floordiv :: "int \<Rightarrow> int \<Rightarrow> pyerr + int" where
  "py_floordiv a b = (if b = 0 then Inl ZeroDivisionError else Inr (a div b))"

definition resolved_head_dim :: "AttentionConfig \<Rightarrow> pyerr + int" where
  "resolved_head_dim cfg =
     (case attn_head_dim cfg of
        Some h \<Rightarrow> py_int h
      | None \<Rightarrow> py_floordiv (attn_d_model cfg) (py_max_int (attn_num_heads cfg) 1))"

definition qkv_dim :: "AttentionConfig \<Rightarrow> pyerr + int" where
  "qkv_dim cfg = ebind (resolved_head_dim cfg) (\<lambda>h. Inr (attn_num_heads cfg * h))"

definition Attention_metrics :: "AttentionConfig \<Rightarrow> int \<Rightarrow> int \<Rightarrow> pyerr + FusionMetrics list" where
  "Attention_metrics cfg batch seq =
     ebind (qkv_dim cfg) (\<lambda>qd1.
     ebind (resolved_head_dim cfg) (\<lambda>hd1.
     ebind (resolved_head_dim cfg) (\<lambda>hd2.
     ebind (qkv_dim cfg) (\<lambda>qd2.
     Inr [attention_qkv_projections batch seq (attn_d_model cfg) qd1 (attn_dtype_bits cfg),
          attention_scores batch seq (attn_num_heads cfg) hd1 (attn_dtype_bits cfg),
          attention_weighted_sum batch seq (attn_num_heads cfg) hd2 (attn_dtype_bits cfg),
          attention_output_projection batch seq (attn_d_model cfg) qd2 (attn_dtype_bits cfg)]))))"

definition Attention_estimate_execution_time ::
  "AttentionConfig \<Rightarrow> int \<Rightarrow> int \<Rightarrow> HardwareSpec \<Rightarrow> pyerr + LayerExecution" where
  "Attention_estimate_execution_time cfg batch seq hardware =
     ebind (Attention_metrics cfg batch seq) (\<lambda>metrics.
     let total_flops = py_sum (map fm_flops metrics);
         total_bytes = py_sum (map fm_bytes_accessed metrics);
         output_bytes = tensor_bytes [batch, seq, attn_d_model cfg] (attn_dtype_bits cfg)
     in
     ebind (compute_time_ms total_flops hardware) (\<lambda>compute_ms.
     ebind (memory_time_ms (fadd total_bytes output_bytes) hardware) (\<lambda>memory_ms.
     ebind (dominant_latency_ms compute_ms memory_ms hardware) (\<lambda>latency_ms.
     Inr \<lparr>ex_layer_name = ''attention'',
          ex_layer_type = ''attention'',
          ex_flops = total_flops,
          ex_bytes_read = total_bytes,
          ex_bytes_written = output_bytes,
          ex_compute_time_ms = compute_ms,
          ex_memory_time_ms = memory_ms,
          ex_dominant_latency_ms = latency_ms,
          ex_estimated_execution_time_ms = latency_ms,
          ex_features = [''d_model'' \<mapsto> float_of_int (attn_d_model cfg),
                         ''num_heads'' \<mapsto> float_of_int (attn_num_heads cfg),
                         ''batch'' \<mapsto> float_of_int batch,
                         ''seq'' \<mapsto> float_of_int seq,
                         ''dtype_bits'' \<mapsto> float_of_int (attn_dtype_bits cfg)],
          ex_breakdown = breakdown_of metrics\<rparr>))))"

section \<open>FFN estimator (core/module/ffn.py)\<close>

record FFNConfig =
  ffn_d_model :: int
  ffn_d_ff :: int
  ffn_dtype_bits :: int

definition FFNConfig_from_dict :: "pydict \<Rightarrow> pyerr + FFNConfig" where
  "FFNConfig_from_dict data =
     ebind (py_int (dget data ''d_model'' (PyInt 768))) (\<lambda>d_model.
     ebind (py_int (dget data ''d_ff'' (dget data ''intermediate_size'' (PyInt 3072)))) (\<lambda>d_ff.
     ebind (py_int (dget data ''dtype_bits'' (PyInt 16))) (\<lambda>dtype_bits.
     Inr \<lparr>ffn_d_model = d_model, ffn_d_ff = d_ff, ffn_dtype_bits = dtype_bits\<rparr>)))"

definition FFN_metrics :: "FFNConfig \<Rightarrow> int \<Rightarrow> int \<Rightarrow> FusionMetrics" where
  "FFN_metrics cfg batch seq =
     ffn_activation batch seq (ffn_d_model cfg) (ffn_d_ff cfg) (ffn_dtype_bits cfg)"

definition FFN_estimate_execution_time ::
  "FFNConfig \<Rightarrow> int \<Rightarrow> int \<Rightarrow> HardwareSpec \<Rightarrow> pyerr + LayerExecution" where
  "FFN_estimate_execution_time cfg batch seq hardware =
     (let metric = FFN_metrics cfg batch seq;
          total_flops = fm_flops metric;
          bytes_accessed = fm_bytes_accessed metric;
          output_bytes = tensor_bytes [batch, seq, ffn_d_model cfg] (ffn_dtype_bits cfg)
      in
      ebind (compute_time_ms total_flops hardware) (\<lambda>compute_ms.
      ebind (memory_time_ms (fadd bytes_accessed output_bytes) hardware) (\<lambda>memory_ms.
      ebind (dominant_latency_ms compute_ms memory_ms hardware) (\<lambda>latency_ms.
      Inr \<lparr>ex_layer_name = ''ffn'',
           ex_layer_type = ''ffn'',
           ex_flops = total_flops,
           ex_bytes_read = bytes_accessed,
           ex_bytes_written = output_bytes,
           ex_compute_time_ms = compute_ms,
           ex_memory_time_ms = memory_ms,
           ex_dominant_latency_ms = latency_ms,
           ex_estimated_execution_time_ms = latency_ms,
           ex_features = [''d_model'' \<mapsto> float_of_int (ffn_d_model cfg),
                          ''d_ff'' \<mapsto> float_of_int (ffn_d_ff cfg),
                          ''batch'' \<mapsto> float_of_int batch,
                          ''seq'' \<mapsto> float_of_int seq,
                          ''dtype_bits'' \<mapsto> float_of_int (ffn_dtype_bits cfg)],
           ex_breakdown = breakdown_of [metric]\<rparr>))))"

section \<open>MoE estimator (core/module/moe.py)\<close>

record MoEConfig =
  moe_d_model :: int
  moe_expert_hidden :: int
  moe_num_experts :: int
  moe_top_k :: int
  moe_avg_experts_per_token :: pyfloat
  moe_num_groups :: int
  moe_dtype_bits :: int

definition MoEConfig_from_dict :: "pydict \<Rightarrow> pyerr + MoEConfig" where
  "MoEConfig_from_dict data =
     ebind (py_int (dget data ''d_model'' (dget data ''model_dim'' (PyInt 768)))) (\<lambda>d_model.
     ebind (py_int (dget data ''moe_intermediate_size'' (dget data ''d_ff'' (PyInt 3072)))) (\<lambda>hidden.
     ebind (py_int (dget data ''n_routed_experts'' (dget data ''num_experts'' (PyInt 1)))) (\<lambda>num_experts.
     ebind (py_int (dget data ''topk_group''
                     (dget data ''top_k'' (dget data ''num_experts_per_tok'' (PyInt 1))))) (\<lambda>top_k.
     let avg_experts = py_float (dget data ''num_experts_per_tok'' (PyInt top_k)) in
     ebind (py_int (dget data ''n_group'' (dget data ''num_groups'' (PyInt 1)))) (\<lambda>num_groups.
     ebind (py_int (dget data ''dtype_bits'' (PyInt 16))) (\<lambda>dtype_bits.
     Inr \<lparr>moe_d_model = d_model,
          moe_expert_hidden = hidden,
          moe_num_experts = py_max_int num_experts 1,
          moe_top_k = py_max_int top_k 1,
          moe_avg_experts_per_token = py_max avg_experts (Fin 1),
          moe_num_groups = py_max_int num_groups 1,
          moe_dtype_bits = dtype_bits\<rparr>))))))"

definition MoE_metrics :: "MoEConfig \<Rightarrow> int \<Rightarrow> int \<Rightarrow> pyerr + FusionMetrics list" where
  "MoE_metrics cfg batch seq =
     (let tokens = batch * seq;
          routing = moe_routing batch seq (moe_num_experts cfg) (moe_top_k cfg) (moe_dtype_bits cfg)
      in
      ebind (py_int_times_float tokens (moe_avg_experts_per_token cfg)) (\<lambda>product.
      ebind (int_of_float product) (\<lambda>active_tokens.
      let expert = moe_expert_forward active_tokens (moe_d_model cfg) (moe_expert_hidden cfg)
                     (moe_dtype_bits cfg)
      in
      ebind (fdiv (tensor_bytes [active_tokens, moe_d_model cfg] (moe_dtype_bits cfg))
                  (float_of_int (moe_num_groups cfg))) (\<lambda>bytes_per_device.
      let comm = communication_all_to_all bytes_per_device in
      Inr [routing, expert, comm]))))"

definition MoE_estimate_execution_time ::
  "MoEConfig \<Rightarrow> int \<Rightarrow> int \<Rightarrow> HardwareSpec \<Rightarrow> pyerr + LayerExecution" where
  "MoE_estimate_execution_time cfg batch seq hardware =
     ebind (MoE_metrics cfg batch seq) (\<lambda>metrics.
     let total_flops = py_sum (map fm_flops metrics);
         bytes_accessed = py_sum (map fm_bytes_accessed metrics);
         output_bytes = tensor_bytes [batch, seq, moe_d_model cfg] (moe_dtype_bits cfg)
     in
     ebind (compute_time_ms total_flops hardware) (\<lambda>compute_ms.
     ebind (memory_time_ms (fadd bytes_accessed output_bytes) hardware) (\<lambda>memory_ms.
     ebind (dominant_latency_ms compute_ms memory_ms hardware) (\<lambda>latency_ms.
     Inr \<lparr>ex_layer_name = ''moe'',
          ex_layer_type = ''moe'',
          ex_flops = total_flops,
          ex_bytes_read = bytes_accessed,
          ex_bytes_written = output_bytes,
          ex_compute_time_ms = compute_ms,
          ex_memory_time_ms = memory_ms,
          ex_dominant_latency_ms = latency_ms,
          ex_estimated_execution_time_ms = latency_ms,
          ex_features = [''d_model'' \<mapsto> float_of_int (moe_d_model cfg),
                         ''expert_hidden'' \<mapsto> float_of_int (moe_expert_hidden cfg),
                         ''num_experts'' \<mapsto> float_of_int (moe_num_experts cfg),
                         ''top_k'' \<mapsto> float_of_int (moe_top_k cfg),
                         ''avg_experts_per_token'' \<mapsto> moe_avg_experts_per_token cfg,
                         ''batch'' \<mapsto> float_of_int batch,
                         ''seq'' \<mapsto> float_of_int seq],
          ex_breakdown = breakdown_of metrics\<rparr>))))"

section \<open>Communication estimator (core/module/communication.py)\<close>

record CommunicationConfig =
  comm_pattern :: string
  comm_payload_mb :: pyfloat

definition CommunicationConfig_from_dict :: "CommDict \<Rightarrow> CommunicationConfig" where
  "CommunicationConfig_from_dict data =
     \<lparr>comm_pattern = (case pattern_entry data of None \<Rightarrow> ''all_to_all'' | Some s \<Rightarrow> s),
      comm_payload_mb =
        py_float (case payload_mb_entry data of None \<Rightarrow> PyFloat (Fin 1) | Some v \<Rightarrow> v)\<rparr>"

definition Communication_estimate_execution_time ::
  "CommunicationConfig \<Rightarrow> int \<Rightarrow> int \<Rightarrow> HardwareSpec \<Rightarrow> pyerr + LayerExecution" where
  "Communication_estimate_execution_time cfg batch seq hardware =
     (let payload_bytes = fmul (comm_payload_mb cfg) (Fin (10 ^ 6));
          metric = (if comm_pattern cfg = ''all_reduce''
                    then communication_all_reduce payload_bytes
                    else communication_all_to_all payload_bytes)
      in
      ebind (interconnect_time_ms (fm_bytes_accessed metric) hardware) (\<lambda>interconnect_ms.
      ebind (memory_time_ms (fm_bytes_accessed metric) hardware) (\<lambda>memory_ms.
      ebind (dominant_latency_ms interconnect_ms memory_ms hardware) (\<lambda>latency_ms.
      Inr \<lparr>ex_layer_name = ''communication'',
           ex_layer_type = ''communication'',
           ex_flops = Fin 0,
           ex_bytes_read = fm_bytes_accessed metric,
           ex_bytes_written = fm_bytes_accessed metric,
           ex_compute_time_ms = interconnect_ms,
           ex_memory_time_ms = memory_ms,
           ex_dominant_latency_ms = latency_ms,
           ex_estimated_execution_time_ms = latency_ms,
           ex_features = [''pattern'' \<mapsto> (if comm_pattern cfg = ''all_reduce'' then Fin 1 else Fin 0),
                          ''payload_mb'' \<mapsto> comm_payload_mb cfg,
                          ''batch'' \<mapsto> float_of_int batch,
                          ''seq'' \<mapsto> float_of_int seq],
           ex_breakdown = breakdown_of [metric]\<rparr>))))"


section \<open>Dispatcher (core/estimation/analytic.py)\<close>

record AnalyticEstimator =
  est_hardware :: HardwareSpec
  est_runtime :: RuntimeSpec

text \<open>
  The \<^verbatim>\<open>isinstance\<close> chain of \<^verbatim>\<open>estimate_layer\<close>: each branch builds the module
  from the layer's own mapping (the constructor parses it with \<^verbatim>\<open>from_dict\<close>) and
  asks it for the estimate.
\<close>

definition module_execution :: "AnalyticEstimator \<Rightarrow> LayerConfig \<Rightarrow> pyerr + LayerExecution" where
  "module_execution self layer_config =
     (let batch = batch_size (est_runtime self);
          seq = seq_len (est_runtime self)
      in case layer_config of
           FFNLayerConfig h ffn_config \<Rightarrow>
             ebind (FFNConfig_from_dict ffn_config)
               (\<lambda>module. FFN_estimate_execution_time module batch seq (est_hardware self))
         | MoELayerConfig h moe_config \<Rightarrow>
             ebind (MoEConfig_from_dict moe_config)
               (\<lambda>module. MoE_estimate_execution_time module batch seq (est_hardware self))
         | CommunicationLayerConfig h comm_config \<Rightarrow>
             Communication_estimate_execution_time (CommunicationConfig_from_dict comm_config)
               batch seq (est_hardware self)
         | BaseLayerConfig h \<Rightarrow>
             ebind (AttentionConfig_from_dict (lc_attn_config h))
               (\<lambda>module. Attention_estimate_execution_time module batch seq (est_hardware self)))"

text \<open>
  The four statements of \<^verbatim>\<open>estimate_layer\<close> that follow the chain: they update the
  execution the module returned.
\<close>

definition backfill :: "LayerConfig \<Rightarrow> LayerExecution \<Rightarrow> LayerExecution" where
  "backfill layer_config execution =
     (let execution = execution\<lparr>ex_layer_name := lc_name (header layer_config)\<rparr>;
          execution = execution\<lparr>ex_layer_type := lc_layer_type (header layer_config)\<rparr>;
          execution = execution\<lparr>ex_features :=
            setdefault (ex_features execution) ''layer_id''
              (float_of_int (lc_layer_id (header layer_config)))\<rparr>;
          execution = execution\<lparr>ex_features :=
            setdefault (ex_features execution) ''layer_type'' (Fin 0)\<rparr>
      in execution)"

definition estimate_layer :: "AnalyticEstimator \<Rightarrow> LayerConfig \<Rightarrow> pyerr + LayerExecution" where
  "estimate_layer self layer_config =
     ebind (module_execution self layer_config)
       (\<lambda>execution. Inr (backfill layer_config execution))"

fun estimate_layers :: "AnalyticEstimator \<Rightarrow> LayerConfig list \<Rightarrow> pyerr + LayerExecution list" where
  "estimate_layers self [] = Inr []"
| "estimate_layers self (config # configs) =
     ebind (estimate_layer self config) (\<lambda>e.
     ebind (estimate_layers self configs) (\<lambda>es. Inr (e # es)))"

section \<open>Aggregation (entrypoints/simulator.py)\<close>

record Scenario =
  sc_name :: string
  sc_hardware :: HardwareSpec
  sc_layers :: "LayerConfig list"

text \<open>
  The builtin \<^verbatim>\<open>max\<close> over an iterable raises \<^verbatim>\<open>ValueError\<close> when it is empty;
  otherwise it starts from the first item and replaces the current one only by an
  item that is strictly greater (by its key, when a key is given).
\<close>

fun py_max_list :: "pyfloat list \<Rightarrow> pyerr + pyfloat" where
  "py_max_list [] = Inl ValueError"
| "py_max_list (x # xs) = Inr (foldl py_max x xs)"

fun py_max_key :: "('a \<Rightarrow> pyfloat) \<Rightarrow> 'a list \<Rightarrow> pyerr + 'a" where
  "py_max_key key [] = Inl ValueError"
| "py_max_key key (x # xs) =
     Inr (foldl (\<lambda>cur item. if fgt (key item) (key cur) then item else cur) x xs)"

text \<open>The two expressions of \<^verbatim>\<open>run_simulation\<close> that look for a maximum.\<close>

definition peak_memory :: "LayerExecution list \<Rightarrow> pyerr + pyfloat" where
  "peak_memory executions =
     py_max_list (map (\<lambda>exec. fadd (ex_bytes_read exec) (ex_bytes_written exec)) executions)"

definition bottleneck_layer :: "LayerExecution list \<Rightarrow> pyerr + string option" where
  "bottleneck_layer executions =
     (if executions \<noteq> []
      then ebind (py_max_key ex_dominant_latency_ms executions) (\<lambda>e. Inr (Some (ex_layer_name e)))
      else Inr None)"

text \<open>The body of \<^verbatim>\<open>run_simulation\<close> after the layers have been estimated.\<close>

definition aggregate :: "LayerExecution list \<Rightarrow> pyerr + SimulationResult" where
  "aggregate executions =
     (let total_flops = py_sum (map ex_flops executions);
          total_latency = py_sum (map ex_dominant_latency_ms executions)
      in
      ebind (peak_memory executions) (\<lambda>peak.
      ebind (bottleneck_layer executions) (\<lambda>bottleneck.
      Inr \<lparr>sr_layers = executions,
           sr_total_flops = total_flops,
           sr_total_latency_ms = total_latency,
           sr_peak_memory_bytes = peak,
           sr_bottleneck_layer = bottleneck\<rparr>)))"

definition run_simulation ::
  "Scenario \<Rightarrow> RuntimeSpec \<Rightarrow> AnalyticEstimator option \<Rightarrow> pyerr + SimulationResult" where
  "run_simulation scenario runtime estimator =
     (let active_estimator =
            (case estimator of
               Some e \<Rightarrow> e
             | None \<Rightarrow> \<lparr>est_hardware = sc_hardware scenario, est_runtime = runtime\<rparr>)
      in ebind (estimate_layers active_estimator (sc_layers scenario)) aggregate)"


section \<open>Example values\<close>

text \<open>The hardware of \<^verbatim>\<open>tests/test_metrics.py\<close>, and an execution record to aggregate.\<close>

definition TestGPU :: HardwareSpec where
  "TestGPU = \<lparr>hw_name = ''TestGPU'', peak_tflops = Fin 100, memory_bandwidth_gbps = Fin 1000,
              hbm_gb = Fin 80, interconnect_gbps = Fin 600, max_concurrency = 1,
              overlap_efficiency = Fin 1\<rparr>"

definition example_execution :: "string \<Rightarrow> pyfloat \<Rightarrow> pyfloat \<Rightarrow> pyfloat \<Rightarrow> pyfloat \<Rightarrow> LayerExecution" where
  "example_execution name flops bytes_read bytes_written latency =
     \<lparr>ex_layer_name = name, ex_layer_type = ''ffn'', ex_flops = flops,
      ex_bytes_read = bytes_read, ex_bytes_written = bytes_written,
      ex_compute_time_ms = latency, ex_memory_time_ms = Fin 1,
      ex_dominant_latency_ms = latency, ex_estimated_execution_time_ms = latency,
      ex_features = Map.empty, ex_breakdown = Map.empty\<rparr>"

section \<open>Facts about the number model\<close>

lemma flt_irrefl [simp]: "\<not> flt a a"
  by (cases a) auto

lemma fle_Fin [simp]: "fle (Fin a) (Fin b) \<longleftrightarrow> a \<le> b"
  by (auto simp: fle_def)

lemma fle_not_nan: "fle a b \<Longrightarrow> \<not> is_nan a \<and> \<not> is_nan b"
  by (cases a; cases b) (auto simp: fle_def)

lemma py_max_le0: "fle x (Fin 0) \<Longrightarrow> py_max x (Fin 0) = Fin 0"
  by (cases x) (auto simp: py_max_def fgt_def fle_def)

lemma py_max_ge_left: "\<not> is_nan a \<Longrightarrow> fle a (py_max a b)"
  by (cases a; cases b) (auto simp: py_max_def fgt_def fle_def)

lemma py_max_ge_right: "\<not> is_nan a \<Longrightarrow> \<not> is_nan b \<Longrightarrow> fle b (py_max a b)"
  by (cases a; cases b) (auto simp: py_max_def fgt_def fle_def)

lemma py_max_not_nan: "\<not> is_nan a \<Longrightarrow> \<not> is_nan (py_max a b)"
  by (cases a; cases b) (auto simp: py_max_def fgt_def)

lemma fdiv_ok: "b \<noteq> Fin 0 \<Longrightarrow> \<exists>q. fdiv a b = Inr q"
  by (cases b; cases a) auto

section \<open>Rounding to the nearest double\<close>

text \<open>
  The rounding is exercised on a few reals (the results are the doubles Python
  prints for them), and three facts about it are proved: the exponent brackets
  its argument, the result is within half a spacing of the argument, and
  integers below \<open>2^53\<close> are not changed.
\<close>

lemma round_double_examples:
  "round_double (1 / 3) = Fin (6004799503160661 / 18014398509481984)"
  "round_double (1 / 10) = Fin (3602879701896397 / 36028797018963968)"
  "round_double (- 7 / 10) = Fin (- 3152519739159347 / 4503599627370496)"
  "round_double 9007199254740993 = Fin 9007199254740992"
  "round_double 123456789123456789123456789 = Fin 123456789123456791337762816"
  by (simp_all add: round_double_def double_exponent_def compute_bitlen pow2_def
      round_half_even_def Let_def)

lemma pow2_pos: "0 < pow2 e"
  by (simp add: pow2_def)

lemma round_half_even_nonneg: "0 \<le> x \<Longrightarrow> 0 \<le> round_half_even x"
  by (auto simp: round_half_even_def Let_def)

lemma round_half_even_error: "\<bar>of_int (round_half_even x) - x\<bar> \<le> 1 / 2"
proof -
  have "of_int \<lfloor>x\<rfloor> \<le> x" "x < of_int \<lfloor>x\<rfloor> + 1" by linarith+
  then show ?thesis
    unfolding round_half_even_def Let_def by (auto simp: abs_le_iff)
qed

lemma round_half_even_of_int: "round_half_even (of_int n) = n"
  by (simp add: round_half_even_def Let_def)


lemma round_double_nonneg:
  assumes "0 \<le> x"
  shows "round_double x = PInf \<or> (\<exists>r. round_double x = Fin r \<and> 0 \<le> r)"
proof -
  define ulp where "ulp = pow2 (max (double_exponent x) (- 1022) - 52)"
  have u: "0 < ulp" unfolding ulp_def by (rule pow2_pos)
  have "0 \<le> x / ulp"
    using assms u by simp
  then have "0 \<le> round_half_even (x / ulp)"
    by (rule round_half_even_nonneg)
  then have "0 \<le> real_of_int (round_half_even (x / ulp)) * ulp"
    using u by simp
  then show ?thesis
    unfolding round_double_def Let_def ulp_def[symmetric] by simp
qed

lemma round_double_error:
  assumes "round_double x = Fin r"
  shows "\<bar>r - x\<bar> \<le> pow2 (max (double_exponent x) (- 1022) - 52) / 2"
proof -
  define ulp where "ulp = pow2 (max (double_exponent x) (- 1022) - 52)"
  define n where "n = real_of_int (round_half_even (x / ulp))"
  have u: "0 < ulp" unfolding ulp_def by (rule pow2_pos)
  have r: "r = n * ulp"
    using assms unfolding round_double_def Let_def ulp_def[symmetric] n_def
    by (simp split: if_splits)
  have "\<bar>n - x / ulp\<bar> \<le> 1 / 2"
    unfolding n_def by (rule round_half_even_error)
  then have "\<bar>n - x / ulp\<bar> * ulp \<le> 1 / 2 * ulp"
    using u by (simp add: mult_right_mono)
  moreover have "\<bar>n - x / ulp\<bar> * ulp = \<bar>(n - x / ulp) * ulp\<bar>"
    using u by (simp add: abs_mult)
  moreover have "(n - x / ulp) * ulp = r - x"
    using u by (simp add: r algebra_simps)
  ultimately show ?thesis
    unfolding ulp_def[symmetric] by simp
qed

lemma pow2_nonneg_eq: "0 \<le> e \<Longrightarrow> pow2 e = 2 ^ nat e"
  by (simp add: pow2_def)

lemma pow2_neg_eq: "0 \<le> k \<Longrightarrow> pow2 (- k) = 1 / 2 ^ nat k"
  by (cases "k = 0") (auto simp: pow2_def)

lemma bitlen_real_bounds:
  assumes "1 \<le> (a::real)"
  shows "0 \<le> bitlen \<lfloor>a\<rfloor> - 1"
    and "2 ^ nat (bitlen \<lfloor>a\<rfloor> - 1) \<le> a"
    and "a < 2 ^ nat (bitlen \<lfloor>a\<rfloor> - 1) * 2"
proof -
  let ?n = "\<lfloor>a\<rfloor>"
  have n: "0 < ?n" using assms by simp
  from bitlen_bounds[OF n] have lo: "2 ^ nat (bitlen ?n - 1) \<le> ?n" and hi: "?n < 2 ^ nat (bitlen ?n)"
    by auto
  have bl: "1 \<le> bitlen ?n"
    using n bitlen_eq_zero_iff[of ?n] bitlen_nonneg[of ?n] by linarith
  then show "0 \<le> bitlen ?n - 1" by simp
  show "2 ^ nat (bitlen ?n - 1) \<le> a"
    using lo by (simp add: le_floor_iff)
  have "nat (bitlen ?n) = Suc (nat (bitlen ?n - 1))"
    using bl by simp
  moreover have "a < 2 ^ nat (bitlen ?n)"
    using hi by (simp add: floor_less_iff)
  ultimately show "a < 2 ^ nat (bitlen ?n - 1) * 2"
    by simp
qed

lemma double_exponent_bounds:
  assumes "x \<noteq> 0"
  shows "pow2 (double_exponent x) \<le> \<bar>x\<bar> \<and> \<bar>x\<bar> < pow2 (double_exponent x + 1)"
proof (cases "1 \<le> \<bar>x\<bar>")
  case True
  define e where "e = bitlen \<lfloor>\<bar>x\<bar>\<rfloor> - 1"
  have de: "double_exponent x = e"
    using True by (simp add: double_exponent_def e_def)
  from bitlen_real_bounds[OF True]
  have e0: "0 \<le> e" and lo: "2 ^ nat e \<le> \<bar>x\<bar>" and hi: "\<bar>x\<bar> < 2 ^ nat e * 2"
    by (simp_all add: e_def)
  have "nat (e + 1) = Suc (nat e)" using e0 by simp
  then show ?thesis
    using e0 lo hi by (simp add: de pow2_def)
next
  case False
  define a where "a = \<bar>x\<bar>"
  have a: "0 < a" "a < 1" using False assms by (simp_all add: a_def)
  then have inv: "1 \<le> 1 / a" by simp
  define k where "k = bitlen \<lfloor>1 / a\<rfloor> - 1"
  from bitlen_real_bounds[OF inv]
  have k0: "0 \<le> k" and lo: "2 ^ nat k \<le> 1 / a" and hi: "1 / a < 2 ^ nat k * 2"
    by (simp_all add: k_def)
  have ale: "a \<le> 1 / 2 ^ nat k"
    using lo a by (simp add: field_simps)
  have agt: "1 / (2 ^ nat k * 2) < a"
    using hi a by (simp add: field_simps)
  have pk: "pow2 k = 2 ^ nat k" using k0 by (simp add: pow2_def)
  show ?thesis
  proof (cases "a * pow2 k = 1")
    case True
    then have de: "double_exponent x = - k"
      using False by (simp add: double_exponent_def a_def[symmetric] k_def[symmetric] Let_def)
    have aeq: "a = 1 / 2 ^ nat k"
      using True pk by (simp add: field_simps)
    have p1: "pow2 (- k) = 1 / 2 ^ nat k" by (rule pow2_neg_eq[OF k0])
    have p2: "pow2 (- k + 1) = 2 / 2 ^ nat k"
    proof (cases "k = 0")
      case True then show ?thesis by (simp add: pow2_def)
    next
      case False
      then have "nat k = Suc (nat (k - 1))" using k0 by simp
      moreover have "pow2 (- k + 1) = 1 / 2 ^ nat (k - 1)"
        using False k0 pow2_neg_eq[of "k - 1"] by simp
      ultimately show ?thesis by simp
    qed
    show ?thesis
      unfolding de a_def[symmetric] p1 p2 using aeq by (simp add: field_simps)
  next
    case nt: False
    then have de: "double_exponent x = - k - 1"
      using False by (simp add: double_exponent_def a_def[symmetric] k_def[symmetric] Let_def)
    have p1: "pow2 (- k - 1) = 1 / (2 ^ nat k * 2)"
      using pow2_neg_eq[of "k + 1"] k0 by (simp add: nat_add_distrib)
    have p2: "pow2 (- k - 1 + 1) = 1 / 2 ^ nat k"
      using pow2_neg_eq[OF k0] by simp
    have "a \<noteq> 1 / 2 ^ nat k"
      using nt pk by (auto simp: field_simps)
    then have "a < 1 / 2 ^ nat k" using ale by simp
    then show ?thesis
      unfolding de a_def[symmetric] p1 p2 using agt by simp
  qed
qed

lemma round_double_int_exact:
  assumes "\<bar>n\<bar> < 2 ^ 53"
  shows "round_double (of_int n) = Fin (of_int n)"
proof (cases "n = 0")
  case True
  then show ?thesis
    by (simp add: round_double_def round_half_even_def Let_def)
next
  case False
  define e where "e = double_exponent (of_int n)"
  have nz: "real_of_int n \<noteq> 0" using False by simp
  from double_exponent_bounds[OF nz]
  have lo: "pow2 e \<le> \<bar>real_of_int n\<bar>" and hi: "\<bar>real_of_int n\<bar> < pow2 (e + 1)"
    by (simp_all add: e_def)
  have n1: "1 \<le> \<bar>real_of_int n\<bar>" using False by (simp flip: of_int_abs)
  have n53: "\<bar>real_of_int n\<bar> < 2 ^ 53"
    using assms by (simp flip: of_int_abs)
  have e0: "0 \<le> e"
  proof (rule ccontr)
    assume "\<not> 0 \<le> e"
    then have "e + 1 \<le> 0" by simp
    then have "pow2 (e + 1) \<le> 1"
      by (cases "e + 1 = 0") (auto simp: pow2_def field_simps one_le_power)
    with hi n1 show False by simp
  qed
  have e52: "e \<le> 52"
  proof (rule ccontr)
    assume "\<not> e \<le> 52"
    then have "53 \<le> nat e" by simp
    then have "(2::real) ^ 53 \<le> 2 ^ nat e"
      by (intro power_increasing) simp_all
    with lo e0 n53 show False by (simp add: pow2_def)
  qed
  define j where "j = nat (52 - e)"
  have ulp: "pow2 (max e (- 1022) - 52) = 1 / 2 ^ j"
    using e0 e52 by (cases "e = 52") (auto simp: pow2_def j_def max_def)
  have q: "real_of_int n / (1 / 2 ^ j) = real_of_int (n * 2 ^ j)"
    by simp
  have r: "real_of_int (round_half_even (real_of_int n / (1 / 2 ^ j))) * (1 / 2 ^ j) = real_of_int n"
    unfolding q round_half_even_of_int by simp
  have b: "\<not> 2 ^ 1024 \<le> real_of_int n" "\<not> real_of_int n \<le> - (2 ^ 1024)"
    using n53 by (auto simp: abs_less_iff)
  show ?thesis
    unfolding round_double_def Let_def e_def[symmetric] ulp r using b by simp
qed

text \<open>The product of an int and a float.\<close>

lemma py_int_times_float_nonneg:
  assumes "0 \<le> i" and "0 \<le> a" and "py_int_times_float i (Fin a) = Inr (Fin p)"
  shows "0 \<le> p"
proof -
  have i: "0 \<le> real_of_int i" using assms(1) by simp
  from round_double_nonneg[OF i] assms(3)
  obtain t where t: "round_double (of_int i) = Fin t" "0 \<le> t"
    by (auto simp: py_int_times_float_def)
  then have "round_double (t * a) = Fin p"
    using assms(3) by (simp add: py_int_times_float_def)
  moreover have "0 \<le> t * a" using t(2) assms(2) by simp
  ultimately show ?thesis
    using round_double_nonneg[of "t * a"] by auto
qed

lemma py_int_times_float_finite:
  assumes "py_int_times_float i x = Inr (Fin p)"
  shows "is_finite x"
  using assms
  by (cases x; cases "round_double (of_int i)")
     (auto simp: py_int_times_float_def split: if_splits)

lemma py_int_times_float_exact:
  assumes "\<bar>i\<bar> < 2 ^ 53" and "\<bar>i * k\<bar> < 2 ^ 53"
  shows "py_int_times_float i (Fin (of_int k)) = Inr (Fin (of_int (i * k)))"
  using round_double_int_exact[OF assms(1)] round_double_int_exact[OF assms(2)]
  by (simp add: py_int_times_float_def)

section \<open>The timing conversions never raise\<close>

lemma effective_overlap_ne0: "effective_overlap hw \<noteq> Fin 0"
  by (cases "overlap_efficiency hw") (auto simp: effective_overlap_def py_max_def fgt_def)

lemma compute_time_ms_total: "\<exists>t. compute_time_ms flops hw = Inr t"
  unfolding compute_time_ms_def compute_throughput_tflops_def Let_def
  by (cases "peak_tflops hw"; cases flops) (auto simp: py_max_def fgt_def fle_def)

lemma memory_time_ms_total: "\<exists>t. memory_time_ms b hw = Inr t"
  unfolding memory_time_ms_def memory_bandwidth_bytes_def Let_def
  by (cases "memory_bandwidth_gbps hw"; cases b) (auto simp: py_max_def fgt_def fle_def)

lemma interconnect_time_ms_total: "\<exists>t. interconnect_time_ms b hw = Inr t"
  unfolding interconnect_time_ms_def interconnect_bandwidth_bytes_def Let_def
  by (cases "interconnect_gbps hw"; cases b) (auto simp: py_max_def fgt_def fle_def)

lemma dominant_latency_ms_total: "\<exists>t. dominant_latency_ms c m hw = Inr t"
  unfolding dominant_latency_ms_def Let_def
  using fdiv_ok[OF effective_overlap_ne0, of m hw] by auto

section \<open>The roofline combinator\<close>

text \<open>
  Claim C1. For non-negative \<open>compute_ms\<close> and \<open>memory_ms\<close> and every hardware
  description, \<open>dominant_latency_ms\<close> returns (it does not raise) Python's
  \<^verbatim>\<open>max(compute_ms, memory_ms / hw.effective_overlap())\<close>: the result \<open>r\<close> is that
  maximum exactly, so it is also at least that maximum; it is at least
  \<open>compute_ms\<close>, and at least the adjusted memory time \<open>q\<close> whenever \<open>q\<close> is a
  number. The effective overlap is the overlap-efficiency field clamped from below
  at \<open>1e-3\<close>: it is never below \<open>1e-3\<close> and never zero, it is \<open>1e-3\<close> for every
  efficiency up to \<open>1e-3\<close> (zero and negative ones included) and the field itself
  from \<open>1e-3\<close> on, so the division never divides by zero.
\<close>

theorem dominant_latency_ms_is_max:
  assumes "fle (Fin 0) compute_ms" and "fle (Fin 0) memory_ms"
  shows "\<exists>q r. fdiv memory_ms (effective_overlap hw) = Inr q
           \<and> dominant_latency_ms compute_ms memory_ms hw = Inr r
           \<and> r = py_max compute_ms q
           \<and> fle (py_max compute_ms q) r
           \<and> fle compute_ms r
           \<and> (is_nan q \<or> fle q r)
           \<and> effective_overlap hw = py_max (overlap_efficiency hw) (Fin (1 / 1000))
           \<and> effective_overlap hw \<noteq> Fin 0
           \<and> \<not> flt (effective_overlap hw) (Fin (1 / 1000))
           \<and> (fle (overlap_efficiency hw) (Fin (1 / 1000)) \<longrightarrow> effective_overlap hw = Fin (1 / 1000))
           \<and> (fle (Fin (1 / 1000)) (overlap_efficiency hw) \<longrightarrow> effective_overlap hw = overlap_efficiency hw)"
proof -
  obtain q where q: "fdiv memory_ms (effective_overlap hw) = Inr q"
    using fdiv_ok[OF effective_overlap_ne0] by blast
  have c: "\<not> is_nan compute_ms"
    using assms(1) fle_not_nan by blast
  let ?r = "py_max compute_ms q"
  have r: "dominant_latency_ms compute_ms memory_ms hw = Inr ?r"
    by (simp add: dominant_latency_ms_def q)
  have rr: "fle ?r ?r"
    using py_max_not_nan[OF c, of q] by (cases ?r) (auto simp: fle_def)
  have cr: "fle compute_ms ?r"
    by (rule py_max_ge_left[OF c])
  have qr: "is_nan q \<or> fle q ?r"
    using py_max_ge_right[OF c] by blast
  have e1: "\<not> flt (effective_overlap hw) (Fin (1 / 1000))"
    by (cases "overlap_efficiency hw") (auto simp: effective_overlap_def py_max_def fgt_def)
  have e2: "fle (overlap_efficiency hw) (Fin (1 / 1000)) \<longrightarrow> effective_overlap hw = Fin (1 / 1000)"
    by (cases "overlap_efficiency hw") (auto simp: effective_overlap_def py_max_def fgt_def fle_def)
  have e3: "fle (Fin (1 / 1000)) (overlap_efficiency hw) \<longrightarrow> effective_overlap hw = overlap_efficiency hw"
    by (cases "overlap_efficiency hw") (auto simp: effective_overlap_def py_max_def fgt_def fle_def)
  show ?thesis
    using q r rr cr qr e1 e2 e3 effective_overlap_ne0[of hw]
    by (auto simp: effective_overlap_def)
qed

theorem dominant_latency_ms_is_max_witness:
  "fle (Fin 0) (Fin 2) \<and> fle (Fin 0) (Fin 3) \<and> fle (Fin 0) (Fin (1 / 1000))
   \<and> effective_overlap \<lparr>hw_name = ''gpu'', peak_tflops = Fin 100, memory_bandwidth_gbps = Fin 1000,
        hbm_gb = Fin 80, interconnect_gbps = Fin 600, max_concurrency = 1,
        overlap_efficiency = Fin 0\<rparr> = Fin (1 / 1000)
   \<and> dominant_latency_ms (Fin 2) (Fin 3)
       \<lparr>hw_name = ''gpu'', peak_tflops = Fin 100, memory_bandwidth_gbps = Fin 1000,
        hbm_gb = Fin 80, interconnect_gbps = Fin 600, max_concurrency = 1,
        overlap_efficiency = Fin 0\<rparr> = Inr (Fin 3000)
   \<and> fle (Fin 0) (Fin 6) \<and> fle (Fin (1 / 1000)) (Fin 2)
   \<and> effective_overlap \<lparr>hw_name = ''gpu'', peak_tflops = Fin 100, memory_bandwidth_gbps = Fin 1000,
        hbm_gb = Fin 80, interconnect_gbps = Fin 600, max_concurrency = 1,
        overlap_efficiency = Fin 2\<rparr> = Fin 2
   \<and> dominant_latency_ms (Fin 2) (Fin 6)
       \<lparr>hw_name = ''gpu'', peak_tflops = Fin 100, memory_bandwidth_gbps = Fin 1000,
        hbm_gb = Fin 80, interconnect_gbps = Fin 600, max_concurrency = 1,
        overlap_efficiency = Fin 2\<rparr> = Inr (Fin 3)"
  using dominant_latency_ms_is_max [of "Fin 2" "Fin 3"
      "\<lparr>hw_name = ''gpu'', peak_tflops = Fin 100, memory_bandwidth_gbps = Fin 1000,
        hbm_gb = Fin 80, interconnect_gbps = Fin 600, max_concurrency = 1,
        overlap_efficiency = Fin 0\<rparr>"]
    dominant_latency_ms_is_max [of "Fin 2" "Fin 6"
      "\<lparr>hw_name = ''gpu'', peak_tflops = Fin 100, memory_bandwidth_gbps = Fin 1000,
        hbm_gb = Fin 80, interconnect_gbps = Fin 600, max_concurrency = 1,
        overlap_efficiency = Fin 2\<rparr>"]
  by (simp add: effective_overlap_def py_max_def fgt_def dominant_latency_ms_def)

section \<open>Degenerate hardware\<close>

text \<open>
  Claim C2. When the peak compute throughput is at most zero, \<open>compute_time_ms\<close>
  returns \<open>+infinity\<close> for every FLOPs value; when the memory bandwidth is at most
  zero, \<open>memory_time_ms\<close> returns \<open>+infinity\<close>; when the interconnect bandwidth is at
  most zero, \<open>interconnect_time_ms\<close> returns exactly \<open>0.0\<close>. None of the three
  conversions raises, on any hardware.
\<close>

theorem degenerate_hardware_times:
  "(fle (peak_tflops hw) (Fin 0) \<longrightarrow> compute_time_ms flops hw = Inr PInf)
   \<and> (fle (memory_bandwidth_gbps hw) (Fin 0) \<longrightarrow> memory_time_ms bytes_moved hw = Inr PInf)
   \<and> (fle (interconnect_gbps hw) (Fin 0) \<longrightarrow> interconnect_time_ms bytes_moved hw = Inr (Fin 0))
   \<and> (\<exists>t. compute_time_ms flops hw = Inr t)
   \<and> (\<exists>t. memory_time_ms bytes_moved hw = Inr t)
   \<and> (\<exists>t. interconnect_time_ms bytes_moved hw = Inr t)"
  using compute_time_ms_total[of flops hw] memory_time_ms_total[of bytes_moved hw]
    interconnect_time_ms_total[of bytes_moved hw]
  by (auto simp: compute_time_ms_def memory_time_ms_def interconnect_time_ms_def
      compute_throughput_tflops_def memory_bandwidth_bytes_def interconnect_bandwidth_bytes_def
      py_max_le0)

theorem degenerate_hardware_times_witness:
  "fle (Fin 0) (Fin 0) \<and> fle (Fin (- 5)) (Fin 0)
   \<and> compute_time_ms (Fin 7)
       \<lparr>hw_name = ''dead'', peak_tflops = Fin 0, memory_bandwidth_gbps = Fin (- 5),
        hbm_gb = Fin 80, interconnect_gbps = Fin 0, max_concurrency = 1,
        overlap_efficiency = Fin 1\<rparr> = Inr PInf
   \<and> memory_time_ms (Fin 7)
       \<lparr>hw_name = ''dead'', peak_tflops = Fin 0, memory_bandwidth_gbps = Fin (- 5),
        hbm_gb = Fin 80, interconnect_gbps = Fin 0, max_concurrency = 1,
        overlap_efficiency = Fin 1\<rparr> = Inr PInf
   \<and> interconnect_time_ms (Fin 7)
       \<lparr>hw_name = ''dead'', peak_tflops = Fin 0, memory_bandwidth_gbps = Fin (- 5),
        hbm_gb = Fin 80, interconnect_gbps = Fin 0, max_concurrency = 1,
        overlap_efficiency = Fin 1\<rparr> = Inr (Fin 0)"
  using degenerate_hardware_times [of
      "\<lparr>hw_name = ''dead'', peak_tflops = Fin 0, memory_bandwidth_gbps = Fin (- 5),
        hbm_gb = Fin 80, interconnect_gbps = Fin 0, max_concurrency = 1,
        overlap_efficiency = Fin 1\<rparr>" "Fin 7" "Fin 7"]
  by simp


section \<open>Catalog formulas\<close>

lemma tensor_elements_2: "tensor_elements [a, b] = max a 0 * max b 0"
  by (simp add: tensor_elements_def py_max_int_def max_def)

lemma tensor_elements_4:
  "0 \<le> a \<Longrightarrow> 0 \<le> b \<Longrightarrow> 0 \<le> c \<Longrightarrow> 0 \<le> d \<Longrightarrow> tensor_elements [a, b, c, d] = a * b * c * d"
  by (simp add: tensor_elements_def py_max_int_def)

text \<open>
  Claim C6. For non-negative \<open>batch\<close>, \<open>seq\<close>, \<open>num_heads\<close> and \<open>head_dim\<close>,
  \<open>attention_scores\<close> returns FLOPs equal to \<open>2*seq*seq*head_dim*batch*num_heads\<close>
  (the per-head matmul times batch times heads) plus the softmax term
  \<open>batch*num_heads*seq*seq\<close>, and bytes equal to the sum of the Q tensor
  \<open>(batch, num_heads, seq, head_dim)\<close>, the K tensor of the same shape and the
  \<open>(batch, num_heads, seq, seq)\<close> attention-weight tensor, each sized by
  \<open>tensor_bytes\<close> at the given \<open>dtype_bits\<close> (element count times \<open>dtype_bits / 8\<close>).
\<close>

theorem attention_scores_formula:
  assumes "0 \<le> batch" and "0 \<le> seq" and "0 \<le> num_heads" and "0 \<le> head_dim"
  shows "fm_name (attention_scores batch seq num_heads head_dim dtype_bits) = ''attention_scores''
    \<and> fm_flops (attention_scores batch seq num_heads head_dim dtype_bits)
        = Fin (of_int (2 * seq * seq * head_dim * batch * num_heads)
               + of_int (batch * num_heads * seq * seq))
    \<and> fm_bytes_accessed (attention_scores batch seq num_heads head_dim dtype_bits)
        = fadd (fadd (tensor_bytes [batch, num_heads, seq, head_dim] dtype_bits)
                     (tensor_bytes [batch, num_heads, seq, head_dim] dtype_bits))
               (tensor_bytes [batch, num_heads, seq, seq] dtype_bits)
    \<and> tensor_bytes [batch, num_heads, seq, head_dim] dtype_bits
        = Fin (of_int (batch * num_heads * seq * head_dim * dtype_bits) / 8)
    \<and> tensor_bytes [batch, num_heads, seq, seq] dtype_bits
        = Fin (of_int (batch * num_heads * seq * seq * dtype_bits) / 8)"
  using assms
  by (simp add: attention_scores_def Let_def matmul_flops_def float_of_int_def tensor_bytes_def
      tensor_elements_4 algebra_simps)

theorem attention_scores_formula_witness:
  "(0::int) \<le> 4 \<and> (0::int) \<le> 128 \<and> (0::int) \<le> 8 \<and> (0::int) \<le> 16
   \<and> fm_flops (attention_scores 4 128 8 16 16) = Fin 17301504
   \<and> fm_bytes_accessed (attention_scores 4 128 8 16 16) = Fin 1310720"
  using attention_scores_formula [of 4 128 8 16 16]
  by simp

section \<open>Head dimension of an attention configuration\<close>

text \<open>
  Claim C10. For every attention configuration whose \<open>head_dim\<close> is unset,
  \<open>resolved_head_dim\<close> is \<open>d_model // max(num_heads, 1)\<close> (floor division): the
  divisor is never zero, so no division-by-zero error arises; \<open>num_heads = 0\<close> yields
  \<open>d_model\<close>, every \<open>num_heads \<ge> 1\<close> yields \<open>d_model // num_heads\<close>, and
  \<open>qkv_dim = num_heads * resolved_head_dim\<close> is always defined.
\<close>

theorem resolved_head_dim_unset:
  assumes "attn_head_dim cfg = None"
  shows "resolved_head_dim cfg = Inr (attn_d_model cfg div max (attn_num_heads cfg) 1)
    \<and> attn_d_model cfg div max (attn_num_heads cfg) 1
        = \<lfloor>real_of_int (attn_d_model cfg) / real_of_int (max (attn_num_heads cfg) 1)\<rfloor>
    \<and> max (attn_num_heads cfg) 1 \<noteq> 0
    \<and> (attn_num_heads cfg = 0 \<longrightarrow> resolved_head_dim cfg = Inr (attn_d_model cfg))
    \<and> (1 \<le> attn_num_heads cfg \<longrightarrow> resolved_head_dim cfg = Inr (attn_d_model cfg div attn_num_heads cfg))
    \<and> qkv_dim cfg = Inr (attn_num_heads cfg * (attn_d_model cfg div max (attn_num_heads cfg) 1))"
  using assms
  by (auto simp: resolved_head_dim_def qkv_dim_def py_floordiv_def py_max_int_def max_def
      floor_divide_of_int_eq)

theorem resolved_head_dim_unset_witness:
  "attn_head_dim \<lparr>attn_d_model = 768, attn_num_heads = 0, attn_head_dim = None, attn_dtype_bits = 16\<rparr> = None
   \<and> resolved_head_dim \<lparr>attn_d_model = 768, attn_num_heads = 0, attn_head_dim = None, attn_dtype_bits = 16\<rparr> = Inr 768
   \<and> qkv_dim \<lparr>attn_d_model = 768, attn_num_heads = 0, attn_head_dim = None, attn_dtype_bits = 16\<rparr> = Inr 0
   \<and> attn_head_dim \<lparr>attn_d_model = 768, attn_num_heads = 8, attn_head_dim = None, attn_dtype_bits = 16\<rparr> = None
   \<and> (1::int) \<le> 8
   \<and> resolved_head_dim \<lparr>attn_d_model = 768, attn_num_heads = 8, attn_head_dim = None, attn_dtype_bits = 16\<rparr> = Inr 96
   \<and> qkv_dim \<lparr>attn_d_model = 768, attn_num_heads = 8, attn_head_dim = None, attn_dtype_bits = 16\<rparr> = Inr 768"
  using resolved_head_dim_unset [of "\<lparr>attn_d_model = 768, attn_num_heads = 0, attn_head_dim = None, attn_dtype_bits = 16\<rparr>"]
    resolved_head_dim_unset [of "\<lparr>attn_d_model = 768, attn_num_heads = 8, attn_head_dim = None, attn_dtype_bits = 16\<rparr>"]
  by simp

section \<open>Aggregation over no layers\<close>

text \<open>
  Claim C5. Over zero layers, computing the peak memory raises (the maximum of an
  empty sequence is a \<^verbatim>\<open>ValueError\<close>) instead of returning zero, and the expression
  that selects the bottleneck layer yields \<^verbatim>\<open>None\<close> without raising. Since the peak
  memory is computed first, the aggregation as a whole, and a simulation of a
  scenario without layers, raise that error.
\<close>

theorem empty_aggregation:
  "peak_memory [] = Inl ValueError
   \<and> bottleneck_layer [] = Inr None
   \<and> aggregate [] = Inl ValueError
   \<and> run_simulation (scenario\<lparr>sc_layers := []\<rparr>) runtime estimator = Inl ValueError"
  by (simp add: peak_memory_def bottleneck_layer_def aggregate_def run_simulation_def)

text \<open>The timing conversions on the example hardware.\<close>

lemma TestGPU_times: "compute_time_ms (Fin a) TestGPU = Inr (Fin (a / 100000000000))"
  "memory_time_ms (Fin a) TestGPU = Inr (Fin (a / 1000000000))"
  "interconnect_time_ms (Fin a) TestGPU = Inr (Fin (a / 600000000))"
  "dominant_latency_ms (Fin a) (Fin b) TestGPU = Inr (Fin (max a b))"
  by (auto simp: TestGPU_def compute_time_ms_def compute_throughput_tflops_def memory_time_ms_def
      memory_bandwidth_bytes_def interconnect_time_ms_def interconnect_bandwidth_bytes_def
      dominant_latency_ms_def effective_overlap_def py_max_def fgt_def fle_def)

section \<open>The estimator modules\<close>

lemma ebind_Inr_iff: "ebind m f = Inr y \<longleftrightarrow> (\<exists>x. m = Inr x \<and> f x = Inr y)"
  by (cases m) auto

text \<open>
  Claim C8. Every execution record returned by one of the four estimator modules
  (Attention, FFN, MoE, Communication) has its estimated execution time equal to
  its dominant latency. The FFN and Communication estimators return a record for
  every configuration.
\<close>

theorem estimated_time_is_dominant_latency:
  "(\<forall>ex. Attention_estimate_execution_time acfg batch seq hw = Inr ex
        \<longrightarrow> ex_estimated_execution_time_ms ex = ex_dominant_latency_ms ex)
   \<and> (\<forall>ex. FFN_estimate_execution_time fcfg batch seq hw = Inr ex
        \<longrightarrow> ex_estimated_execution_time_ms ex = ex_dominant_latency_ms ex)
   \<and> (\<forall>ex. MoE_estimate_execution_time mcfg batch seq hw = Inr ex
        \<longrightarrow> ex_estimated_execution_time_ms ex = ex_dominant_latency_ms ex)
   \<and> (\<forall>ex. Communication_estimate_execution_time ccfg batch seq hw = Inr ex
        \<longrightarrow> ex_estimated_execution_time_ms ex = ex_dominant_latency_ms ex)
   \<and> (\<exists>ex. FFN_estimate_execution_time fcfg batch seq hw = Inr ex)
   \<and> (\<exists>ex. Communication_estimate_execution_time ccfg batch seq hw = Inr ex)"
proof (intro conjI allI impI)
  fix ex assume "Attention_estimate_execution_time acfg batch seq hw = Inr ex"
  then show "ex_estimated_execution_time_ms ex = ex_dominant_latency_ms ex"
    by (auto simp: Attention_estimate_execution_time_def Let_def ebind_Inr_iff)
next
  fix ex assume "FFN_estimate_execution_time fcfg batch seq hw = Inr ex"
  then show "ex_estimated_execution_time_ms ex = ex_dominant_latency_ms ex"
    by (auto simp: FFN_estimate_execution_time_def Let_def ebind_Inr_iff)
next
  fix ex assume "MoE_estimate_execution_time mcfg batch seq hw = Inr ex"
  then show "ex_estimated_execution_time_ms ex = ex_dominant_latency_ms ex"
    by (auto simp: MoE_estimate_execution_time_def Let_def ebind_Inr_iff)
next
  fix ex assume "Communication_estimate_execution_time ccfg batch seq hw = Inr ex"
  then show "ex_estimated_execution_time_ms ex = ex_dominant_latency_ms ex"
    by (auto simp: Communication_estimate_execution_time_def Let_def ebind_Inr_iff)
next
  obtain c where c: "compute_time_ms (fm_flops (FFN_metrics fcfg batch seq)) hw = Inr c"
    using compute_time_ms_total by blast
  obtain m where m: "memory_time_ms (fadd (fm_bytes_accessed (FFN_metrics fcfg batch seq))
      (tensor_bytes [batch, seq, ffn_d_model fcfg] (ffn_dtype_bits fcfg))) hw = Inr m"
    using memory_time_ms_total by blast
  obtain l where l: "dominant_latency_ms c m hw = Inr l"
    using dominant_latency_ms_total by blast
  show "\<exists>ex. FFN_estimate_execution_time fcfg batch seq hw = Inr ex"
    by (simp add: FFN_estimate_execution_time_def Let_def c m l)
next
  let ?p = "fmul (comm_payload_mb ccfg) (Fin 1000000)"
  obtain c where c: "interconnect_time_ms ?p hw = Inr c"
    using interconnect_time_ms_total by blast
  obtain m where m: "memory_time_ms ?p hw = Inr m"
    using memory_time_ms_total by blast
  obtain l where l: "dominant_latency_ms c m hw = Inr l"
    using dominant_latency_ms_total by blast
  show "\<exists>ex. Communication_estimate_execution_time ccfg batch seq hw = Inr ex"
    by (simp add: Communication_estimate_execution_time_def Let_def c m l
        communication_all_reduce_def communication_all_to_all_def)
qed

theorem estimated_time_is_dominant_latency_witness:
  "(\<exists>ex. Attention_estimate_execution_time
          \<lparr>attn_d_model = 128, attn_num_heads = 8, attn_head_dim = Some (PyInt 16), attn_dtype_bits = 16\<rparr>
          2 32 TestGPU = Inr ex
        \<and> ex_estimated_execution_time_ms ex = ex_dominant_latency_ms ex)
   \<and> (\<exists>ex. FFN_estimate_execution_time \<lparr>ffn_d_model = 256, ffn_d_ff = 1024, ffn_dtype_bits = 16\<rparr>
          2 32 TestGPU = Inr ex
        \<and> ex_estimated_execution_time_ms ex = ex_dominant_latency_ms ex)
   \<and> (\<exists>ex. MoE_estimate_execution_time
          \<lparr>moe_d_model = 256, moe_expert_hidden = 512, moe_num_experts = 16, moe_top_k = 2,
           moe_avg_experts_per_token = Fin 2, moe_num_groups = 1, moe_dtype_bits = 16\<rparr>
          2 32 TestGPU = Inr ex
        \<and> ex_estimated_execution_time_ms ex = ex_dominant_latency_ms ex)
   \<and> (\<exists>ex. Communication_estimate_execution_time
          \<lparr>comm_pattern = ''all_reduce'', comm_payload_mb = Fin 1\<rparr> 2 32 TestGPU = Inr ex
        \<and> ex_dominant_latency_ms ex = Fin (1 / 600)
        \<and> ex_estimated_execution_time_ms ex = Fin (1 / 600))"
proof -
  have p: "py_int_times_float 64 (Fin 2) = Inr (Fin 128)"
    using py_int_times_float_exact [of 64 2] by simp
  note T = estimated_time_is_dominant_latency [of
      "\<lparr>attn_d_model = 128, attn_num_heads = 8, attn_head_dim = Some (PyInt 16), attn_dtype_bits = 16\<rparr>"
      2 32 TestGPU
      "\<lparr>ffn_d_model = 256, ffn_d_ff = 1024, ffn_dtype_bits = 16\<rparr>"
      "\<lparr>moe_d_model = 256, moe_expert_hidden = 512, moe_num_experts = 16, moe_top_k = 2,
           moe_avg_experts_per_token = Fin 2, moe_num_groups = 1, moe_dtype_bits = 16\<rparr>"
      "\<lparr>comm_pattern = ''all_reduce'', comm_payload_mb = Fin 1\<rparr>"]
  from T show ?thesis
    by (simp add: Attention_estimate_execution_time_def Attention_metrics_def qkv_dim_def
        resolved_head_dim_def attention_qkv_projections_def attention_scores_def
        attention_weighted_sum_def attention_output_projection_def
        FFN_estimate_execution_time_def FFN_metrics_def ffn_activation_def
        MoE_estimate_execution_time_def MoE_metrics_def moe_routing_def moe_expert_forward_def
        Communication_estimate_execution_time_def communication_all_reduce_def
        communication_all_to_all_def tensor_bytes_def tensor_elements_def py_max_int_def
        matmul_flops_def float_of_int_def py_sum_def TestGPU_times Let_def p)
qed

section \<open>The MoE estimator\<close>

lemma py_max_Fin1:
  "py_max x (Fin 1) = NaN \<or> py_max x (Fin 1) = PInf \<or> (\<exists>a. py_max x (Fin 1) = Fin a \<and> 1 \<le> a)"
  by (cases x) (auto simp: py_max_def fgt_def)

text \<open>The floors that \<open>from_dict\<close> applies.\<close>

lemma MoEConfig_from_dict_floors:
  assumes "MoEConfig_from_dict data = Inr cfg"
  shows "1 \<le> moe_num_experts cfg \<and> 1 \<le> moe_top_k cfg \<and> 1 \<le> moe_num_groups cfg
    \<and> (moe_avg_experts_per_token cfg = NaN \<or> moe_avg_experts_per_token cfg = PInf
        \<or> (\<exists>a. moe_avg_experts_per_token cfg = Fin a \<and> 1 \<le> a))"
proof -
  obtain x where avg: "moe_avg_experts_per_token cfg = py_max x (Fin 1)"
    and "1 \<le> moe_num_experts cfg \<and> 1 \<le> moe_top_k cfg \<and> 1 \<le> moe_num_groups cfg"
    using assms
    by (auto simp: MoEConfig_from_dict_def Let_def ebind_Inr_iff py_max_int_def)
  then show ?thesis
    using py_max_Fin1[of x] by simp
qed

lemma MoE_metrics_product:
  assumes p: "py_int_times_float (batch * seq) (moe_avg_experts_per_token cfg) = Inr (Fin p)"
    and p0: "0 \<le> p" and g: "moe_num_groups cfg \<noteq> 0"
  shows "MoE_metrics cfg batch seq =
    Inr [moe_routing batch seq (moe_num_experts cfg) (moe_top_k cfg) (moe_dtype_bits cfg),
         moe_expert_forward \<lfloor>p\<rfloor> (moe_d_model cfg) (moe_expert_hidden cfg) (moe_dtype_bits cfg),
         communication_all_to_all
           (Fin (of_int (tensor_elements [\<lfloor>p\<rfloor>, moe_d_model cfg] * moe_dtype_bits cfg) / 8
                 / of_int (moe_num_groups cfg)))]"
  using p0 g
  by (simp add: MoE_metrics_def Let_def p float_of_int_def tensor_bytes_def)

lemma MoE_metrics_Inr_product:
  assumes "MoE_metrics cfg batch seq = Inr ms"
  shows "\<exists>p. py_int_times_float (batch * seq) (moe_avg_experts_per_token cfg) = Inr (Fin p)"
proof -
  from assms obtain x k where x: "py_int_times_float (batch * seq) (moe_avg_experts_per_token cfg) = Inr x"
    and "int_of_float x = Inr k"
    by (auto simp: MoE_metrics_def Let_def ebind_Inr_iff)
  then show ?thesis by (cases x) auto
qed

lemma MoE_estimate_of_metrics:
  assumes "MoE_metrics cfg batch seq = Inr ms"
  shows "\<exists>ex. MoE_estimate_execution_time cfg batch seq hw = Inr ex
           \<and> ex_flops ex = py_sum (map fm_flops ms)"
proof -
  obtain c where c: "compute_time_ms (py_sum (map fm_flops ms)) hw = Inr c"
    using compute_time_ms_total by blast
  obtain m where m: "memory_time_ms (fadd (py_sum (map fm_bytes_accessed ms))
      (tensor_bytes [batch, seq, moe_d_model cfg] (moe_dtype_bits cfg))) hw = Inr m"
    using memory_time_ms_total by blast
  obtain l where l: "dominant_latency_ms c m hw = Inr l"
    using dominant_latency_ms_total by blast
  show ?thesis
    by (simp add: MoE_estimate_execution_time_def Let_def assms c m l)
qed

text \<open>
  Claim C3. For every MoE configuration (as \<open>from_dict\<close> builds it) and
  non-negative \<open>batch\<close> and \<open>seq\<close>, whenever the estimator returns a record, its
  metrics are exactly three catalog results: \<open>moe_routing\<close>, \<open>moe_expert_forward\<close>
  on \<open>active_tokens = floor(batch*seq*avg_experts_per_token)\<close>, where the product
  \<open>p\<close> is the double Python computes for \<^verbatim>\<open>tokens * avg_experts_per_token\<close> (it is
  non-negative, so \<^verbatim>\<open>int()\<close> takes its floor), and \<open>communication_all_to_all\<close> on
  \<open>tensor_bytes((active_tokens, d_model), dtype_bits) / num_groups\<close>; the record's
  FLOPs are the sum of the three formulas' FLOPs, namely
  \<open>tokens*num_experts + tokens*top_k\<close> for routing,
  \<open>2*active_tokens*expert_hidden*d_model + 2*active_tokens*d_model*expert_hidden
  + active_tokens*expert_hidden\<close> for the expert forward pass, and 0 for the
  all-to-all. The estimator returns a record whenever that product is a finite
  number (the floor of an infinity or a NaN does not exist: \<^verbatim>\<open>int()\<close> raises there).
\<close>

theorem MoE_execution_flops:
  assumes cfg: "MoEConfig_from_dict data = Inr cfg" and b: "0 \<le> batch" and s: "0 \<le> seq"
  shows "(\<forall>ex. MoE_estimate_execution_time cfg batch seq hw = Inr ex \<longrightarrow>
           (\<exists>p active_tokens bytes_per_device routing expert comm.
               py_int_times_float (batch * seq) (moe_avg_experts_per_token cfg) = Inr (Fin p)
             \<and> 0 \<le> p
             \<and> active_tokens = \<lfloor>p\<rfloor>
             \<and> fdiv (tensor_bytes [active_tokens, moe_d_model cfg] (moe_dtype_bits cfg))
                    (float_of_int (moe_num_groups cfg)) = Inr bytes_per_device
             \<and> routing = moe_routing batch seq (moe_num_experts cfg) (moe_top_k cfg) (moe_dtype_bits cfg)
             \<and> expert = moe_expert_forward active_tokens (moe_d_model cfg) (moe_expert_hidden cfg)
                          (moe_dtype_bits cfg)
             \<and> comm = communication_all_to_all bytes_per_device
             \<and> MoE_metrics cfg batch seq = Inr [routing, expert, comm]
             \<and> fm_flops routing
                 = Fin (of_int (batch * seq * moe_num_experts cfg + batch * seq * moe_top_k cfg))
             \<and> fm_flops expert
                 = Fin (of_int (2 * active_tokens * moe_expert_hidden cfg * moe_d_model cfg
                                + 2 * active_tokens * moe_d_model cfg * moe_expert_hidden cfg
                                + active_tokens * moe_expert_hidden cfg))
             \<and> fm_flops comm = Fin 0
             \<and> ex_flops ex
                 = Fin (of_int (batch * seq * moe_num_experts cfg + batch * seq * moe_top_k cfg)
                        + of_int (2 * active_tokens * moe_expert_hidden cfg * moe_d_model cfg
                                  + 2 * active_tokens * moe_d_model cfg * moe_expert_hidden cfg
                                  + active_tokens * moe_expert_hidden cfg)
                        + 0)))
       \<and> (\<forall>p. py_int_times_float (batch * seq) (moe_avg_experts_per_token cfg) = Inr (Fin p)
            \<longrightarrow> (\<exists>ex. MoE_estimate_execution_time cfg batch seq hw = Inr ex))"
proof (intro conjI allI impI)
  fix ex
  assume ex: "MoE_estimate_execution_time cfg batch seq hw = Inr ex"
  then obtain ms where ms: "MoE_metrics cfg batch seq = Inr ms"
    by (auto simp: MoE_estimate_execution_time_def ebind_Inr_iff)
  from MoE_metrics_Inr_product[OF ms]
  obtain p where p: "py_int_times_float (batch * seq) (moe_avg_experts_per_token cfg) = Inr (Fin p)"
    by blast
  from py_int_times_float_finite[OF p] MoEConfig_from_dict_floors[OF cfg]
  obtain a where a: "moe_avg_experts_per_token cfg = Fin a" "1 \<le> a"
    by auto
  have p0: "0 \<le> p"
    using py_int_times_float_nonneg[of "batch * seq" a p] p a b s by simp
  have g: "moe_num_groups cfg \<noteq> 0"
    using MoEConfig_from_dict_floors[OF cfg] by auto
  let ?at = "\<lfloor>p\<rfloor>"
  let ?bpd = "Fin (of_int (tensor_elements [?at, moe_d_model cfg] * moe_dtype_bits cfg) / 8
                 / of_int (moe_num_groups cfg))"
  have m: "MoE_metrics cfg batch seq =
    Inr [moe_routing batch seq (moe_num_experts cfg) (moe_top_k cfg) (moe_dtype_bits cfg),
         moe_expert_forward ?at (moe_d_model cfg) (moe_expert_hidden cfg) (moe_dtype_bits cfg),
         communication_all_to_all ?bpd]"
    by (rule MoE_metrics_product[OF p p0 g])
  have d: "fdiv (tensor_bytes [?at, moe_d_model cfg] (moe_dtype_bits cfg))
             (float_of_int (moe_num_groups cfg)) = Inr ?bpd"
    using g by (simp add: tensor_bytes_def float_of_int_def)
  have fl: "ex_flops ex = py_sum (map fm_flops
      [moe_routing batch seq (moe_num_experts cfg) (moe_top_k cfg) (moe_dtype_bits cfg),
       moe_expert_forward ?at (moe_d_model cfg) (moe_expert_hidden cfg) (moe_dtype_bits cfg),
       communication_all_to_all ?bpd])"
    using MoE_estimate_of_metrics[OF m, of hw] ex by auto
  show "\<exists>p active_tokens bytes_per_device routing expert comm.
               py_int_times_float (batch * seq) (moe_avg_experts_per_token cfg) = Inr (Fin p)
             \<and> 0 \<le> p
             \<and> active_tokens = \<lfloor>p\<rfloor>
             \<and> fdiv (tensor_bytes [active_tokens, moe_d_model cfg] (moe_dtype_bits cfg))
                    (float_of_int (moe_num_groups cfg)) = Inr bytes_per_device
             \<and> routing = moe_routing batch seq (moe_num_experts cfg) (moe_top_k cfg) (moe_dtype_bits cfg)
             \<and> expert = moe_expert_forward active_tokens (moe_d_model cfg) (moe_expert_hidden cfg)
                          (moe_dtype_bits cfg)
             \<and> comm = communication_all_to_all bytes_per_device
             \<and> MoE_metrics cfg batch seq = Inr [routing, expert, comm]
             \<and> fm_flops routing
                 = Fin (of_int (batch * seq * moe_num_experts cfg + batch * seq * moe_top_k cfg))
             \<and> fm_flops expert
                 = Fin (of_int (2 * active_tokens * moe_expert_hidden cfg * moe_d_model cfg
                                + 2 * active_tokens * moe_d_model cfg * moe_expert_hidden cfg
                                + active_tokens * moe_expert_hidden cfg))
             \<and> fm_flops comm = Fin 0
             \<and> ex_flops ex
                 = Fin (of_int (batch * seq * moe_num_experts cfg + batch * seq * moe_top_k cfg)
                        + of_int (2 * active_tokens * moe_expert_hidden cfg * moe_d_model cfg
                                  + 2 * active_tokens * moe_d_model cfg * moe_expert_hidden cfg
                                  + active_tokens * moe_expert_hidden cfg)
                        + 0)"
    apply (rule exI[of _ p], rule exI[of _ ?at], rule exI[of _ ?bpd])
    apply (simp only: p p0 d m fl simp_thms ex_simps)
    apply (simp add: moe_routing_def moe_expert_forward_def communication_all_to_all_def
        Let_def matmul_flops_def float_of_int_def py_sum_def algebra_simps)
    done
next
  fix p
  assume p: "py_int_times_float (batch * seq) (moe_avg_experts_per_token cfg) = Inr (Fin p)"
  from py_int_times_float_finite[OF p] MoEConfig_from_dict_floors[OF cfg]
  obtain a where a: "moe_avg_experts_per_token cfg = Fin a" "1 \<le> a"
    by auto
  have p0: "0 \<le> p"
    using py_int_times_float_nonneg[of "batch * seq" a p] p a b s by simp
  have g: "moe_num_groups cfg \<noteq> 0"
    using MoEConfig_from_dict_floors[OF cfg] by auto
  obtain ms where "MoE_metrics cfg batch seq = Inr ms"
    using MoE_metrics_product[OF p p0 g] by simp
  then show "\<exists>ex. MoE_estimate_execution_time cfg batch seq hw = Inr ex"
    using MoE_estimate_of_metrics by blast
qed

theorem MoE_execution_flops_witness:
  "MoEConfig_from_dict [''d_model'' \<mapsto> PyInt 256, ''moe_intermediate_size'' \<mapsto> PyInt 512,
        ''n_routed_experts'' \<mapsto> PyInt 16, ''topk_group'' \<mapsto> PyInt 2, ''num_experts_per_tok'' \<mapsto> PyInt 2]
     = Inr \<lparr>moe_d_model = 256, moe_expert_hidden = 512, moe_num_experts = 16, moe_top_k = 2,
            moe_avg_experts_per_token = Fin 2, moe_num_groups = 1, moe_dtype_bits = 16\<rparr>
   \<and> (0::int) \<le> 2 \<and> (0::int) \<le> 64
   \<and> py_int_times_float (2 * 64) (Fin 2) = Inr (Fin 256)
   \<and> (\<exists>ex. MoE_estimate_execution_time
          \<lparr>moe_d_model = 256, moe_expert_hidden = 512, moe_num_experts = 16, moe_top_k = 2,
            moe_avg_experts_per_token = Fin 2, moe_num_groups = 1, moe_dtype_bits = 16\<rparr> 2 64
          TestGPU = Inr ex
        \<and> ex_flops ex = Fin 134351104)
   \<and> MoEConfig_from_dict [''num_experts_per_tok'' \<mapsto> PyFloat (Fin (7656119366529843 / 4503599627370496))]
     = Inr \<lparr>moe_d_model = 768, moe_expert_hidden = 3072, moe_num_experts = 1, moe_top_k = 1,
            moe_avg_experts_per_token = Fin (7656119366529843 / 4503599627370496),
            moe_num_groups = 1, moe_dtype_bits = 16\<rparr>
   \<and> (0::int) \<le> 5
   \<and> py_int_times_float (2 * 5) (Fin (7656119366529843 / 4503599627370496)) = Inr (Fin 17)
   \<and> (\<exists>ex. MoE_estimate_execution_time
          \<lparr>moe_d_model = 768, moe_expert_hidden = 3072, moe_num_experts = 1, moe_top_k = 1,
            moe_avg_experts_per_token = Fin (7656119366529843 / 4503599627370496),
            moe_num_groups = 1, moe_dtype_bits = 16\<rparr> 2 5
          TestGPU = Inr ex
        \<and> ex_flops ex = Fin 160484372)"
proof -
  have c1: "MoEConfig_from_dict [''d_model'' \<mapsto> PyInt 256, ''moe_intermediate_size'' \<mapsto> PyInt 512,
        ''n_routed_experts'' \<mapsto> PyInt 16, ''topk_group'' \<mapsto> PyInt 2, ''num_experts_per_tok'' \<mapsto> PyInt 2]
     = Inr \<lparr>moe_d_model = 256, moe_expert_hidden = 512, moe_num_experts = 16, moe_top_k = 2,
            moe_avg_experts_per_token = Fin 2, moe_num_groups = 1, moe_dtype_bits = 16\<rparr>"
    by (simp add: MoEConfig_from_dict_def dget_def py_max_int_def py_max_def fgt_def float_of_int_def)
  have c2: "MoEConfig_from_dict [''num_experts_per_tok'' \<mapsto> PyFloat (Fin (7656119366529843 / 4503599627370496))]
     = Inr \<lparr>moe_d_model = 768, moe_expert_hidden = 3072, moe_num_experts = 1, moe_top_k = 1,
            moe_avg_experts_per_token = Fin (7656119366529843 / 4503599627370496),
            moe_num_groups = 1, moe_dtype_bits = 16\<rparr>"
    by (simp add: MoEConfig_from_dict_def dget_def py_max_int_def py_max_def fgt_def float_of_int_def)
  have b: "(0::int) \<le> 2" and s1: "(0::int) \<le> 64" and s2: "(0::int) \<le> 5"
    by simp_all
  have p1: "py_int_times_float (2 * 64) (Fin 2) = Inr (Fin 256)"
    by (simp add: py_int_times_float_def round_double_def double_exponent_def compute_bitlen
        pow2_def round_half_even_def Let_def)
  have p2: "py_int_times_float (2 * 5) (Fin (7656119366529843 / 4503599627370496)) = Inr (Fin 17)"
    by (simp add: py_int_times_float_def round_double_def double_exponent_def compute_bitlen
        pow2_def round_half_even_def Let_def)
  note T1 = MoE_execution_flops [OF c1 b s1, of TestGPU]
  note T2 = MoE_execution_flops [OF c2 b s2, of TestGPU]
  from T1 p1 obtain ex1 where ex1: "MoE_estimate_execution_time
          \<lparr>moe_d_model = 256, moe_expert_hidden = 512, moe_num_experts = 16, moe_top_k = 2,
            moe_avg_experts_per_token = Fin 2, moe_num_groups = 1, moe_dtype_bits = 16\<rparr> 2 64
          TestGPU = Inr ex1"
    by auto
  from T1 ex1 p1 have f1: "ex_flops ex1 = Fin 134351104"
    by auto
  from T2 p2 obtain ex2 where ex2: "MoE_estimate_execution_time
          \<lparr>moe_d_model = 768, moe_expert_hidden = 3072, moe_num_experts = 1, moe_top_k = 1,
            moe_avg_experts_per_token = Fin (7656119366529843 / 4503599627370496),
            moe_num_groups = 1, moe_dtype_bits = 16\<rparr> 2 5
          TestGPU = Inr ex2"
    by auto
  from T2 ex2 p2 have f2: "ex_flops ex2 = Fin 160484372"
    by auto
  from c1 c2 p1 p2 ex1 f1 ex2 f2 show ?thesis
    by (intro conjI exI[of _ ex1] exI[of _ ex2]) simp_all
qed

section \<open>The Communication estimator\<close>

text \<open>
  Claim C9. For every Communication configuration and hardware description the
  estimator returns a record whose compute-time field holds the interconnect
  transfer time of the payload (\<open>payload_mb * 1e6\<close> bytes over the interconnect
  bandwidth, expressed in milliseconds, and \<open>0.0\<close> when that bandwidth is at most
  zero) rather than a time derived from the compute throughput; its FLOPs are
  \<open>0.0\<close>, its bytes read and bytes written both equal the payload bytes, and its
  dominant latency is \<open>dominant_latency_ms\<close> of the interconnect time and the memory
  time of that payload.
\<close>

theorem communication_execution_fields:
  "\<exists>ex ic mem lat.
      Communication_estimate_execution_time cfg batch seq hw = Inr ex
    \<and> interconnect_time_ms (fmul (comm_payload_mb cfg) (Fin (10 ^ 6))) hw = Inr ic
    \<and> memory_time_ms (fmul (comm_payload_mb cfg) (Fin (10 ^ 6))) hw = Inr mem
    \<and> dominant_latency_ms ic mem hw = Inr lat
    \<and> ex_compute_time_ms ex = ic
    \<and> ex_memory_time_ms ex = mem
    \<and> ex_dominant_latency_ms ex = lat
    \<and> ex_flops ex = Fin 0
    \<and> ex_bytes_read ex = fmul (comm_payload_mb cfg) (Fin (10 ^ 6))
    \<and> ex_bytes_written ex = fmul (comm_payload_mb cfg) (Fin (10 ^ 6))
    \<and> (fle (interconnect_gbps hw) (Fin 0) \<longrightarrow> ic = Fin 0)
    \<and> (\<forall>p g. comm_payload_mb cfg = Fin p \<and> interconnect_gbps hw = Fin g \<and> 0 < g
          \<longrightarrow> ic = Fin (p * 10 ^ 6 / (g * 10 ^ 9) * 10 ^ 3))"
proof -
  let ?p = "fmul (comm_payload_mb cfg) (Fin 1000000)"
  obtain ic where ic: "interconnect_time_ms ?p hw = Inr ic"
    using interconnect_time_ms_total by blast
  obtain mem where mem: "memory_time_ms ?p hw = Inr mem"
    using memory_time_ms_total by blast
  obtain lat where lat: "dominant_latency_ms ic mem hw = Inr lat"
    using dominant_latency_ms_total by blast
  have ex: "\<exists>ex. Communication_estimate_execution_time cfg batch seq hw = Inr ex
      \<and> ex_compute_time_ms ex = ic \<and> ex_memory_time_ms ex = mem \<and> ex_dominant_latency_ms ex = lat
      \<and> ex_flops ex = Fin 0 \<and> ex_bytes_read ex = ?p \<and> ex_bytes_written ex = ?p"
    by (simp add: Communication_estimate_execution_time_def Let_def ic mem lat
        communication_all_reduce_def communication_all_to_all_def)
  have z: "fle (interconnect_gbps hw) (Fin 0) \<longrightarrow> ic = Fin 0"
    using ic by (auto simp: interconnect_time_ms_def interconnect_bandwidth_bytes_def py_max_le0)
  have f: "\<forall>p g. comm_payload_mb cfg = Fin p \<and> interconnect_gbps hw = Fin g \<and> 0 < g
          \<longrightarrow> ic = Fin (p * 10 ^ 6 / (g * 10 ^ 9) * 10 ^ 3)"
    using ic
    by (auto simp: interconnect_time_ms_def interconnect_bandwidth_bytes_def py_max_def fgt_def
        Let_def)
  show ?thesis
    using ex ic mem lat z f by auto
qed

theorem communication_execution_fields_witness:
  "(\<exists>ex. Communication_estimate_execution_time \<lparr>comm_pattern = ''all_to_all'', comm_payload_mb = Fin 3\<rparr> 2 32
          \<lparr>hw_name = ''TestGPU'', peak_tflops = Fin 200, memory_bandwidth_gbps = Fin 1000,
           hbm_gb = Fin 80, interconnect_gbps = Fin 600, max_concurrency = 1,
           overlap_efficiency = Fin 1\<rparr> = Inr ex
        \<and> ex_compute_time_ms ex = Fin (1 / 200)
        \<and> compute_time_ms (ex_flops ex)
          \<lparr>hw_name = ''TestGPU'', peak_tflops = Fin 200, memory_bandwidth_gbps = Fin 1000,
           hbm_gb = Fin 80, interconnect_gbps = Fin 600, max_concurrency = 1,
           overlap_efficiency = Fin 1\<rparr> = Inr (Fin 0)
        \<and> ex_flops ex = Fin 0
        \<and> ex_bytes_read ex = Fin 3000000
        \<and> ex_bytes_written ex = Fin 3000000
        \<and> ex_memory_time_ms ex = Fin (3 / 1000)
        \<and> ex_dominant_latency_ms ex = Fin (1 / 200))
   \<and> fle (Fin 0) (Fin 0)
   \<and> (\<exists>ex. Communication_estimate_execution_time \<lparr>comm_pattern = ''all_to_all'', comm_payload_mb = Fin 3\<rparr> 2 32
          \<lparr>hw_name = ''TestGPU'', peak_tflops = Fin 200, memory_bandwidth_gbps = Fin 1000,
           hbm_gb = Fin 80, interconnect_gbps = Fin 0, max_concurrency = 1,
           overlap_efficiency = Fin 1\<rparr> = Inr ex
        \<and> ex_compute_time_ms ex = Fin 0
        \<and> ex_dominant_latency_ms ex = Fin (3 / 1000))"
  using communication_execution_fields [of "\<lparr>comm_pattern = ''all_to_all'', comm_payload_mb = Fin 3\<rparr>" 2 32
          "\<lparr>hw_name = ''TestGPU'', peak_tflops = Fin 200, memory_bandwidth_gbps = Fin 1000,
           hbm_gb = Fin 80, interconnect_gbps = Fin 600, max_concurrency = 1,
           overlap_efficiency = Fin 1\<rparr>"]
    communication_execution_fields [of "\<lparr>comm_pattern = ''all_to_all'', comm_payload_mb = Fin 3\<rparr>" 2 32
          "\<lparr>hw_name = ''TestGPU'', peak_tflops = Fin 200, memory_bandwidth_gbps = Fin 1000,
           hbm_gb = Fin 80, interconnect_gbps = Fin 0, max_concurrency = 1,
           overlap_efficiency = Fin 1\<rparr>"]
  by (simp add: Communication_estimate_execution_time_def communication_all_to_all_def Let_def
      interconnect_time_ms_def interconnect_bandwidth_bytes_def memory_time_ms_def
      memory_bandwidth_bytes_def dominant_latency_ms_def effective_overlap_def
      compute_time_ms_def compute_throughput_tflops_def
      py_max_def fgt_def fle_def)

section \<open>The dispatcher\<close>

lemma backfill_fields:
  "ex_layer_name (backfill layer_config execution) = lc_name (header layer_config)
   \<and> ex_layer_type (backfill layer_config execution) = lc_layer_type (header layer_config)
   \<and> ex_flops (backfill layer_config execution) = ex_flops execution
   \<and> ex_bytes_read (backfill layer_config execution) = ex_bytes_read execution
   \<and> ex_bytes_written (backfill layer_config execution) = ex_bytes_written execution
   \<and> ex_compute_time_ms (backfill layer_config execution) = ex_compute_time_ms execution
   \<and> ex_memory_time_ms (backfill layer_config execution) = ex_memory_time_ms execution
   \<and> ex_dominant_latency_ms (backfill layer_config execution) = ex_dominant_latency_ms execution
   \<and> ex_estimated_execution_time_ms (backfill layer_config execution)
       = ex_estimated_execution_time_ms execution
   \<and> ex_breakdown (backfill layer_config execution) = ex_breakdown execution"
  by (simp add: backfill_def Let_def)

lemma backfill_features:
  "ex_features (backfill layer_config execution) k =
     (case ex_features execution k of
        Some v \<Rightarrow> Some v
      | None \<Rightarrow> (if k = ''layer_id'' then Some (float_of_int (lc_layer_id (header layer_config)))
                 else if k = ''layer_type'' then Some (Fin 0) else None))"
  by (simp add: backfill_def Let_def setdefault_def split: option.splits)

lemma module_features:
  assumes "module_execution self layer_config = Inr execution"
  shows "ex_features execution ''layer_id'' = None \<and> ex_features execution ''layer_type'' = None"
  using assms
  by (cases layer_config)
     (auto simp: module_execution_def Let_def ebind_Inr_iff
        FFN_estimate_execution_time_def MoE_estimate_execution_time_def
        Communication_estimate_execution_time_def Attention_estimate_execution_time_def)

text \<open>
  Claim C7. For every layer configuration, \<open>estimate_layer\<close> returns the record of
  the selected estimator module after the back-fill (and raises what the module
  raises). The back-fill overwrites \<open>layer_name\<close> and \<open>layer_type\<close> with the
  configuration's own name and type; it inserts the feature keys \<open>layer_id\<close> and
  \<open>layer_type\<close> only where they are absent, so every feature the estimator set
  keeps its value; and it leaves every other field (FLOPs, bytes read, bytes
  written, compute time, memory time, dominant latency, estimated execution time,
  all other features, the breakdown) as the module returned it. The modules set
  neither key, so a dispatcher result always carries the two defaults. Dispatch
  selects FFN for an \<open>FFNLayerConfig\<close>, MoE for a \<open>MoELayerConfig\<close>, Communication
  for a \<open>CommunicationLayerConfig\<close> and Attention for the base variant, each built
  from the layer's own mapping.
\<close>

theorem estimate_layer_backfill:
  "(\<forall>ex. module_execution self layer_config = Inr ex
       \<longrightarrow> estimate_layer self layer_config = Inr (backfill layer_config ex)
          \<and> ex_features (backfill layer_config ex) ''layer_id''
              = Some (float_of_int (lc_layer_id (header layer_config)))
          \<and> ex_features (backfill layer_config ex) ''layer_type'' = Some (Fin 0))
   \<and> (\<forall>e. module_execution self layer_config = Inl e \<longrightarrow> estimate_layer self layer_config = Inl e)
   \<and> ex_layer_name (backfill layer_config execution) = lc_name (header layer_config)
   \<and> ex_layer_type (backfill layer_config execution) = lc_layer_type (header layer_config)
   \<and> ex_flops (backfill layer_config execution) = ex_flops execution
   \<and> ex_bytes_read (backfill layer_config execution) = ex_bytes_read execution
   \<and> ex_bytes_written (backfill layer_config execution) = ex_bytes_written execution
   \<and> ex_compute_time_ms (backfill layer_config execution) = ex_compute_time_ms execution
   \<and> ex_memory_time_ms (backfill layer_config execution) = ex_memory_time_ms execution
   \<and> ex_dominant_latency_ms (backfill layer_config execution) = ex_dominant_latency_ms execution
   \<and> ex_estimated_execution_time_ms (backfill layer_config execution)
       = ex_estimated_execution_time_ms execution
   \<and> ex_breakdown (backfill layer_config execution) = ex_breakdown execution
   \<and> (\<forall>k v. ex_features execution k = Some v
         \<longrightarrow> ex_features (backfill layer_config execution) k = Some v)
   \<and> (ex_features execution ''layer_id'' = None
         \<longrightarrow> ex_features (backfill layer_config execution) ''layer_id''
              = Some (float_of_int (lc_layer_id (header layer_config))))
   \<and> (ex_features execution ''layer_type'' = None
         \<longrightarrow> ex_features (backfill layer_config execution) ''layer_type'' = Some (Fin 0))
   \<and> (\<forall>k. k \<noteq> ''layer_id'' \<and> k \<noteq> ''layer_type''
         \<longrightarrow> ex_features (backfill layer_config execution) k = ex_features execution k)
   \<and> module_execution self (FFNLayerConfig h ffn_config)
       = ebind (FFNConfig_from_dict ffn_config)
           (\<lambda>m. FFN_estimate_execution_time m (batch_size (est_runtime self))
                  (seq_len (est_runtime self)) (est_hardware self))
   \<and> module_execution self (MoELayerConfig h moe_config)
       = ebind (MoEConfig_from_dict moe_config)
           (\<lambda>m. MoE_estimate_execution_time m (batch_size (est_runtime self))
                  (seq_len (est_runtime self)) (est_hardware self))
   \<and> module_execution self (CommunicationLayerConfig h comm_config)
       = Communication_estimate_execution_time (CommunicationConfig_from_dict comm_config)
           (batch_size (est_runtime self)) (seq_len (est_runtime self)) (est_hardware self)
   \<and> module_execution self (BaseLayerConfig h)
       = ebind (AttentionConfig_from_dict (lc_attn_config h))
           (\<lambda>m. Attention_estimate_execution_time m (batch_size (est_runtime self))
                  (seq_len (est_runtime self)) (est_hardware self))"
proof -
  have a: "\<forall>ex. module_execution self layer_config = Inr ex
       \<longrightarrow> estimate_layer self layer_config = Inr (backfill layer_config ex)
          \<and> ex_features (backfill layer_config ex) ''layer_id''
              = Some (float_of_int (lc_layer_id (header layer_config)))
          \<and> ex_features (backfill layer_config ex) ''layer_type'' = Some (Fin 0)"
    using module_features[of self layer_config]
    by (simp add: estimate_layer_def backfill_features)
  have b: "\<forall>e. module_execution self layer_config = Inl e \<longrightarrow> estimate_layer self layer_config = Inl e"
    by (simp add: estimate_layer_def)
  have c: "\<forall>k v. ex_features execution k = Some v
         \<longrightarrow> ex_features (backfill layer_config execution) k = Some v"
    by (simp add: backfill_features)
  have d: "(ex_features execution ''layer_id'' = None
         \<longrightarrow> ex_features (backfill layer_config execution) ''layer_id''
              = Some (float_of_int (lc_layer_id (header layer_config))))
     \<and> (ex_features execution ''layer_type'' = None
         \<longrightarrow> ex_features (backfill layer_config execution) ''layer_type'' = Some (Fin 0))"
    by (simp add: backfill_features)
  have e: "\<forall>k. k \<noteq> ''layer_id'' \<and> k \<noteq> ''layer_type''
         \<longrightarrow> ex_features (backfill layer_config execution) k = ex_features execution k"
    by (simp add: backfill_features split: option.splits)
  have f: "module_execution self (FFNLayerConfig h ffn_config)
       = ebind (FFNConfig_from_dict ffn_config)
           (\<lambda>m. FFN_estimate_execution_time m (batch_size (est_runtime self))
                  (seq_len (est_runtime self)) (est_hardware self))
   \<and> module_execution self (MoELayerConfig h moe_config)
       = ebind (MoEConfig_from_dict moe_config)
           (\<lambda>m. MoE_estimate_execution_time m (batch_size (est_runtime self))
                  (seq_len (est_runtime self)) (est_hardware self))
   \<and> module_execution self (CommunicationLayerConfig h comm_config)
       = Communication_estimate_execution_time (CommunicationConfig_from_dict comm_config)
           (batch_size (est_runtime self)) (seq_len (est_runtime self)) (est_hardware self)
   \<and> module_execution self (BaseLayerConfig h)
       = ebind (AttentionConfig_from_dict (lc_attn_config h))
           (\<lambda>m. Attention_estimate_execution_time m (batch_size (est_runtime self))
                  (seq_len (est_runtime self)) (est_hardware self))"
    by (simp add: module_execution_def Let_def)
  show ?thesis
    using a b c d e f backfill_fields[of layer_config execution] by simp
qed

theorem estimate_layer_backfill_witness:
  "(\<exists>r. estimate_layer
          \<lparr>est_hardware = TestGPU,
           est_runtime = \<lparr>batch_size = 2, seq_len = 32, micro_batch = None, tokens_per_expert = None\<rparr>\<rparr>
          (CommunicationLayerConfig
             \<lparr>lc_layer_type = ''communication'', lc_name = ''comm_7'', lc_layer_id = 7,
              lc_attn_config = Map.empty, lc_fused_ops = []\<rparr>
             \<lparr>pattern_entry = None, payload_mb_entry = Some (PyInt 3)\<rparr>) = Inr r
      \<and> ex_layer_name r = ''comm_7''
      \<and> ex_layer_type r = ''communication''
      \<and> ex_features r ''layer_id'' = Some (Fin 7)
      \<and> ex_features r ''layer_type'' = Some (Fin 0)
      \<and> ex_features r ''payload_mb'' = Some (Fin 3)
      \<and> ex_compute_time_ms r = Fin (1 / 200))
   \<and> estimate_layer
          \<lparr>est_hardware = TestGPU,
           est_runtime = \<lparr>batch_size = 2, seq_len = 32, micro_batch = None, tokens_per_expert = None\<rparr>\<rparr>
          (FFNLayerConfig
             \<lparr>lc_layer_type = ''ffn'', lc_name = ''ffn_0'', lc_layer_id = 0,
              lc_attn_config = Map.empty, lc_fused_ops = []\<rparr>
             [''d_model'' \<mapsto> PyFloat PInf]) = Inl OverflowError
   \<and> ex_features ((example_execution ''x'' (Fin 1) (Fin 2) (Fin 3) (Fin 5))
                      \<lparr>ex_features := [''layer_id'' \<mapsto> Fin 42]\<rparr>) ''layer_id'' = Some (Fin 42)
   \<and> ex_features ((example_execution ''x'' (Fin 1) (Fin 2) (Fin 3) (Fin 5))
                      \<lparr>ex_features := [''layer_id'' \<mapsto> Fin 42]\<rparr>) ''layer_type'' = None
   \<and> ex_features
        (backfill
          (FFNLayerConfig
             \<lparr>lc_layer_type = ''ffn'', lc_name = ''ffn_0'', lc_layer_id = 0,
              lc_attn_config = Map.empty, lc_fused_ops = []\<rparr>
             [''d_model'' \<mapsto> PyFloat PInf])
          ((example_execution ''x'' (Fin 1) (Fin 2) (Fin 3) (Fin 5))
             \<lparr>ex_features := [''layer_id'' \<mapsto> Fin 42]\<rparr>)) ''layer_id''
       = Some (Fin 42)
   \<and> ex_features
        (backfill
          (FFNLayerConfig
             \<lparr>lc_layer_type = ''ffn'', lc_name = ''ffn_0'', lc_layer_id = 0,
              lc_attn_config = Map.empty, lc_fused_ops = []\<rparr>
             [''d_model'' \<mapsto> PyFloat PInf])
          ((example_execution ''x'' (Fin 1) (Fin 2) (Fin 3) (Fin 5))
             \<lparr>ex_features := [''layer_id'' \<mapsto> Fin 42]\<rparr>)) ''layer_type''
       = Some (Fin 0)"
  using estimate_layer_backfill [where
      self = "\<lparr>est_hardware = TestGPU,
           est_runtime = \<lparr>batch_size = 2, seq_len = 32, micro_batch = None, tokens_per_expert = None\<rparr>\<rparr>"
      and layer_config = "CommunicationLayerConfig
             \<lparr>lc_layer_type = ''communication'', lc_name = ''comm_7'', lc_layer_id = 7,
              lc_attn_config = Map.empty, lc_fused_ops = []\<rparr>
             \<lparr>pattern_entry = None, payload_mb_entry = Some (PyInt 3)\<rparr>"]
    estimate_layer_backfill [where
      self = "\<lparr>est_hardware = TestGPU,
           est_runtime = \<lparr>batch_size = 2, seq_len = 32, micro_batch = None, tokens_per_expert = None\<rparr>\<rparr>"
      and layer_config = "FFNLayerConfig
             \<lparr>lc_layer_type = ''ffn'', lc_name = ''ffn_0'', lc_layer_id = 0,
              lc_attn_config = Map.empty, lc_fused_ops = []\<rparr>
             [''d_model'' \<mapsto> PyFloat PInf]"
      and execution = "(example_execution ''x'' (Fin 1) (Fin 2) (Fin 3) (Fin 5))
             \<lparr>ex_features := [''layer_id'' \<mapsto> Fin 42]\<rparr>"]
  by (simp add: estimate_layer_def module_execution_def CommunicationConfig_from_dict_def
      FFNConfig_from_dict_def dget_def
      Communication_estimate_execution_time_def communication_all_to_all_def Let_def
      TestGPU_times float_of_int_def backfill_def setdefault_def example_execution_def)

section \<open>Aggregation over a non-empty list of layers\<close>

text \<open>Order facts about floats that are numbers.\<close>

lemma flt_trans: "flt a b \<Longrightarrow> flt b c \<Longrightarrow> flt a c"
  by (cases a; cases b; cases c) auto

lemma fle_flt_trans: "fle a b \<Longrightarrow> flt b c \<Longrightarrow> flt a c"
  by (cases a; cases b; cases c) (auto simp: fle_def)

lemma fle_trans: "fle a b \<Longrightarrow> fle b c \<Longrightarrow> fle a c"
  by (cases a; cases b; cases c) (auto simp: fle_def)

lemma not_flt_fle: "\<not> is_nan a \<Longrightarrow> \<not> is_nan b \<Longrightarrow> \<not> flt a b \<Longrightarrow> fle b a"
  by (cases a; cases b) (auto simp: fle_def)

lemma flt_imp_fle: "flt a b \<Longrightarrow> fle a b"
  by (simp add: fle_def)

lemma fle_refl: "\<not> is_nan a \<Longrightarrow> fle a a"
  by (cases a) (auto simp: fle_def)

text \<open>\<^verbatim>\<open>sum\<close> over finite floats is the sum of their values; one \<open>+infinity\<close> among
  finite floats makes it \<open>+infinity\<close>.\<close>

lemma foldl_fadd_finite:
  "\<forall>x\<in>set xs. is_finite x \<Longrightarrow> foldl fadd (Fin a) xs = Fin (a + sum_list (map fval xs))"
proof (induction xs arbitrary: a)
  case Nil
  then show ?case by simp
next
  case (Cons x xs)
  then obtain r where "x = Fin r" by (cases x) auto
  with Cons show ?case by (simp add: add.assoc)
qed

lemma py_sum_finite:
  "\<forall>x\<in>set xs. is_finite x \<Longrightarrow> py_sum xs = Fin (sum_list (map fval xs))"
  by (simp add: py_sum_def foldl_fadd_finite)

lemma foldl_fadd_PInf:
  "\<forall>x\<in>set xs. is_finite x \<or> x = PInf \<Longrightarrow> foldl fadd PInf xs = PInf"
  by (induction xs) (auto elim: is_finite.elims)

lemma foldl_fadd_reaches_PInf:
  "\<forall>x\<in>set xs. is_finite x \<or> x = PInf \<Longrightarrow> PInf \<in> set xs \<Longrightarrow> foldl fadd (Fin a) xs = PInf"
proof (induction xs arbitrary: a)
  case Nil
  then show ?case by simp
next
  case (Cons x xs)
  show ?case
  proof (cases x)
    case (Fin r)
    with Cons show ?thesis by auto
  next
    case PInf
    with Cons.prems show ?thesis by (simp add: foldl_fadd_PInf)
  qed (use Cons.prems in auto)
qed

lemma py_sum_PInf:
  "\<forall>x\<in>set xs. is_finite x \<or> x = PInf \<Longrightarrow> PInf \<in> set xs \<Longrightarrow> py_sum xs = PInf"
  by (simp add: py_sum_def foldl_fadd_reaches_PInf)

text \<open>
  \<^verbatim>\<open>max\<close> over numbers returns an element that bounds all the others; with a key
  it returns the first element whose key is largest.
\<close>

lemma foldl_py_max:
  assumes "\<not> is_nan x" and "\<forall>y\<in>set xs. \<not> is_nan y"
  shows "foldl py_max x xs \<in> set (x # xs) \<and> (\<forall>y\<in>set (x # xs). fle y (foldl py_max x xs))"
  using assms
proof (induction xs rule: rev_induct)
  case Nil
  then show ?case by (simp add: fle_refl)
next
  case (snoc z zs)
  let ?m = "foldl py_max x zs"
  from snoc have ih: "?m \<in> set (x # zs)" "\<forall>y\<in>set (x # zs). fle y ?m"
    by auto
  from snoc.prems ih(1) have mn: "\<not> is_nan ?m" by auto
  from snoc.prems have zn: "\<not> is_nan z" by simp
  show ?case
  proof (cases "fgt z ?m")
    case True
    then have eq: "foldl py_max x (zs @ [z]) = z" by (simp add: py_max_def)
    have "\<forall>y\<in>set (x # zs). fle y z"
      using ih(2) True fle_flt_trans flt_imp_fle unfolding fgt_def by blast
    then show ?thesis using eq zn by (auto simp: fle_refl)
  next
    case False
    then have eq: "foldl py_max x (zs @ [z]) = ?m" by (simp add: py_max_def)
    have "fle z ?m" using False mn zn not_flt_fle unfolding fgt_def by blast
    then show ?thesis using eq ih by auto
  qed
qed

lemma foldl_key_max:
  fixes key :: "'a \<Rightarrow> pyfloat"
  assumes "\<not> is_nan (key x)" and "\<forall>y\<in>set xs. \<not> is_nan (key y)"
  shows "\<exists>before after.
           x # xs = before @ foldl (\<lambda>cur item. if fgt (key item) (key cur) then item else cur) x xs # after
         \<and> (\<forall>y\<in>set before. flt (key y) (key (foldl (\<lambda>cur item. if fgt (key item) (key cur) then item else cur) x xs)))
         \<and> (\<forall>y\<in>set after. fle (key y) (key (foldl (\<lambda>cur item. if fgt (key item) (key cur) then item else cur) x xs)))"
  using assms
proof (induction xs rule: rev_induct)
  case Nil
  show ?case by (rule exI[of _ "[]"], rule exI[of _ "[]"]) simp
next
  case (snoc z zs)
  let ?step = "\<lambda>cur item. if fgt (key item) (key cur) then item else cur"
  let ?m = "foldl ?step x zs"
  from snoc obtain before after where
    sp: "x # zs = before @ ?m # after"
    and bf: "\<forall>y\<in>set before. flt (key y) (key ?m)"
    and af: "\<forall>y\<in>set after. fle (key y) (key ?m)"
    by auto
  have "?m \<in> set (x # zs)" by (subst sp) simp
  with snoc.prems have mn: "\<not> is_nan (key ?m)" by auto
  from snoc.prems have zn: "\<not> is_nan (key z)" by simp
  show ?case
  proof (cases "fgt (key z) (key ?m)")
    case True
    then have eq: "foldl ?step x (zs @ [z]) = z" by simp
    have lt: "flt (key ?m) (key z)" using True by (simp add: fgt_def)
    have "\<forall>y\<in>set (x # zs). flt (key y) (key z)"
    proof
      fix y assume "y \<in> set (x # zs)"
      then have "y \<in> set before \<or> y = ?m \<or> y \<in> set after"
        by (subst (asm) sp) auto
      then show "flt (key y) (key z)"
        using bf af lt flt_trans fle_flt_trans by blast
    qed
    then have "x # zs @ [z] = (x # zs) @ z # [] \<and> (\<forall>y\<in>set (x # zs). flt (key y) (key z))
        \<and> (\<forall>y\<in>set []. fle (key y) (key z))"
      by simp
    then show ?thesis
      unfolding eq by blast
  next
    case False
    then have eq: "foldl ?step x (zs @ [z]) = ?m" by simp
    have le: "fle (key z) (key ?m)"
      using False mn zn not_flt_fle unfolding fgt_def by blast
    have "x # zs @ [z] = before @ ?m # (after @ [z])"
      using sp by simp
    moreover have "\<forall>y\<in>set (after @ [z]). fle (key y) (key ?m)"
      using af le by auto
    ultimately show ?thesis
      unfolding eq using bf by blast
  qed
qed

lemma run_simulation_aggregate:
  "run_simulation scenario runtime (Some est) = ebind (estimate_layers est (sc_layers scenario)) aggregate"
  by (simp add: run_simulation_def)

text \<open>
  Claim C4. For every non-empty list of layer executions the aggregation returns
  a result whose total FLOPs are the sum of the per-layer FLOPs (Python's \<^verbatim>\<open>sum\<close>;
  the sum of the values when all are finite), whose total latency is the sum of
  the per-layer dominant latencies (likewise; \<open>+infinity\<close> when some layer's latency
  is \<open>+infinity\<close> and the others are finite), whose peak memory is the maximum over
  the layers of \<open>bytes_read + bytes_written\<close> (it is the byte sum of some layer and
  no layer's byte sum exceeds it), and whose bottleneck layer is the name of the
  layer with the largest dominant latency, the first such layer in list order:
  every layer before it has a strictly smaller latency and every layer after it a
  smaller or equal one. Maximum and largest are taken over numbers: the two
  statements about them are made for lists whose compared values are not NaN.
\<close>

theorem aggregate_nonempty:
  assumes ne: "executions \<noteq> []"
  shows "\<exists>r. aggregate executions = Inr r
     \<and> sr_layers r = executions
     \<and> sr_total_flops r = py_sum (map ex_flops executions)
     \<and> sr_total_latency_ms r = py_sum (map ex_dominant_latency_ms executions)
     \<and> ((\<forall>e\<in>set executions. is_finite (ex_flops e))
          \<longrightarrow> sr_total_flops r = Fin (\<Sum>e\<leftarrow>executions. fval (ex_flops e)))
     \<and> ((\<forall>e\<in>set executions. is_finite (ex_dominant_latency_ms e))
          \<longrightarrow> sr_total_latency_ms r = Fin (\<Sum>e\<leftarrow>executions. fval (ex_dominant_latency_ms e)))
     \<and> ((\<forall>e\<in>set executions. is_finite (ex_dominant_latency_ms e) \<or> ex_dominant_latency_ms e = PInf)
          \<and> (\<exists>e\<in>set executions. ex_dominant_latency_ms e = PInf)
          \<longrightarrow> sr_total_latency_ms r = PInf)
     \<and> ((\<forall>e\<in>set executions. \<not> is_nan (fadd (ex_bytes_read e) (ex_bytes_written e)))
          \<longrightarrow> (\<exists>e\<in>set executions. sr_peak_memory_bytes r = fadd (ex_bytes_read e) (ex_bytes_written e))
            \<and> (\<forall>e\<in>set executions. fle (fadd (ex_bytes_read e) (ex_bytes_written e)) (sr_peak_memory_bytes r)))
     \<and> ((\<forall>e\<in>set executions. \<not> is_nan (ex_dominant_latency_ms e))
          \<longrightarrow> (\<exists>before e after. executions = before @ e # after
                \<and> sr_bottleneck_layer r = Some (ex_layer_name e)
                \<and> (\<forall>x\<in>set before. flt (ex_dominant_latency_ms x) (ex_dominant_latency_ms e))
                \<and> (\<forall>x\<in>set after. fle (ex_dominant_latency_ms x) (ex_dominant_latency_ms e))))"
proof -
  from ne obtain x xs where xs: "executions = x # xs"
    by (cases executions) auto
  let ?bytes = "\<lambda>e. fadd (ex_bytes_read e) (ex_bytes_written e)"
  let ?step = "\<lambda>cur item. if fgt (ex_dominant_latency_ms item) (ex_dominant_latency_ms cur) then item else cur"
  let ?peak = "foldl py_max (?bytes x) (map ?bytes xs)"
  let ?b = "foldl ?step x xs"
  let ?r = "\<lparr>sr_layers = executions,
            sr_total_flops = py_sum (map ex_flops executions),
            sr_total_latency_ms = py_sum (map ex_dominant_latency_ms executions),
            sr_peak_memory_bytes = ?peak,
            sr_bottleneck_layer = Some (ex_layer_name ?b)\<rparr>"
  have r: "aggregate executions = Inr ?r"
    by (simp add: aggregate_def peak_memory_def bottleneck_layer_def xs Let_def)
  have f1: "(\<forall>e\<in>set executions. is_finite (ex_flops e))
          \<longrightarrow> sr_total_flops ?r = Fin (\<Sum>e\<leftarrow>executions. fval (ex_flops e))"
    using py_sum_finite[of "map ex_flops executions"] by (simp add: comp_def)
  have f2: "(\<forall>e\<in>set executions. is_finite (ex_dominant_latency_ms e))
          \<longrightarrow> sr_total_latency_ms ?r = Fin (\<Sum>e\<leftarrow>executions. fval (ex_dominant_latency_ms e))"
    using py_sum_finite[of "map ex_dominant_latency_ms executions"] by (simp add: comp_def)
  have f3: "(\<forall>e\<in>set executions. is_finite (ex_dominant_latency_ms e) \<or> ex_dominant_latency_ms e = PInf)
          \<and> (\<exists>e\<in>set executions. ex_dominant_latency_ms e = PInf)
          \<longrightarrow> sr_total_latency_ms ?r = PInf"
    using py_sum_PInf[of "map ex_dominant_latency_ms executions"] by force
  have f4: "(\<forall>e\<in>set executions. \<not> is_nan (?bytes e))
          \<longrightarrow> (\<exists>e\<in>set executions. sr_peak_memory_bytes ?r = ?bytes e)
            \<and> (\<forall>e\<in>set executions. fle (?bytes e) (sr_peak_memory_bytes ?r))"
  proof
    assume nn: "\<forall>e\<in>set executions. \<not> is_nan (?bytes e)"
    then have "\<not> is_nan (?bytes x)" and "\<forall>y\<in>set (map ?bytes xs). \<not> is_nan y"
      by (auto simp: xs)
    from foldl_py_max[OF this]
    have "?peak \<in> set (map ?bytes executions)" and "\<forall>y\<in>set (map ?bytes executions). fle y ?peak"
      by (simp_all add: xs)
    then show "(\<exists>e\<in>set executions. sr_peak_memory_bytes ?r = ?bytes e)
            \<and> (\<forall>e\<in>set executions. fle (?bytes e) (sr_peak_memory_bytes ?r))"
      by auto
  qed
  have f5: "(\<forall>e\<in>set executions. \<not> is_nan (ex_dominant_latency_ms e))
          \<longrightarrow> (\<exists>before e after. executions = before @ e # after
                \<and> sr_bottleneck_layer ?r = Some (ex_layer_name e)
                \<and> (\<forall>x\<in>set before. flt (ex_dominant_latency_ms x) (ex_dominant_latency_ms e))
                \<and> (\<forall>x\<in>set after. fle (ex_dominant_latency_ms x) (ex_dominant_latency_ms e)))"
  proof
    assume "\<forall>e\<in>set executions. \<not> is_nan (ex_dominant_latency_ms e)"
    then have "\<not> is_nan (ex_dominant_latency_ms x)" and "\<forall>y\<in>set xs. \<not> is_nan (ex_dominant_latency_ms y)"
      by (auto simp: xs)
    from foldl_key_max[of ex_dominant_latency_ms, OF this]
    obtain before after where "x # xs = before @ ?b # after"
      and "\<forall>y\<in>set before. flt (ex_dominant_latency_ms y) (ex_dominant_latency_ms ?b)"
      and "\<forall>y\<in>set after. fle (ex_dominant_latency_ms y) (ex_dominant_latency_ms ?b)"
      by blast
    then show "\<exists>before e after. executions = before @ e # after
                \<and> sr_bottleneck_layer ?r = Some (ex_layer_name e)
                \<and> (\<forall>x\<in>set before. flt (ex_dominant_latency_ms x) (ex_dominant_latency_ms e))
                \<and> (\<forall>x\<in>set after. fle (ex_dominant_latency_ms x) (ex_dominant_latency_ms e))"
      unfolding xs by (intro exI[of _ before] exI[of _ ?b] exI[of _ after]) simp
  qed
  show ?thesis
    apply (rule exI[of _ ?r])
    apply (intro conjI)
            apply (rule r)
           apply simp
          apply simp
         apply simp
        apply (rule f1)
       apply (rule f2)
      apply (rule f3)
     apply (rule f4)
    apply (rule f5)
    done
qed

theorem aggregate_nonempty_witness:
  "[example_execution ''a'' (Fin 10) (Fin 1) (Fin 1) (Fin 5),
    example_execution ''b'' (Fin 20) (Fin 4) (Fin 4) (Fin 9),
    example_execution ''c'' (Fin 30) (Fin 2) (Fin 2) (Fin 9)] \<noteq> []
   \<and> (\<exists>r. aggregate
          [example_execution ''a'' (Fin 10) (Fin 1) (Fin 1) (Fin 5),
           example_execution ''b'' (Fin 20) (Fin 4) (Fin 4) (Fin 9),
           example_execution ''c'' (Fin 30) (Fin 2) (Fin 2) (Fin 9)] = Inr r
        \<and> sr_total_flops r = Fin 60
        \<and> sr_total_latency_ms r = Fin 23
        \<and> sr_peak_memory_bytes r = Fin 8
        \<and> sr_bottleneck_layer r = Some ''b'')
   \<and> [example_execution ''a'' (Fin 10) (Fin 1) (Fin 1) (Fin 5),
       example_execution ''d'' (Fin 20) (Fin 4) (Fin 4) PInf] \<noteq> []
   \<and> (\<exists>r. aggregate
          [example_execution ''a'' (Fin 10) (Fin 1) (Fin 1) (Fin 5),
           example_execution ''d'' (Fin 20) (Fin 4) (Fin 4) PInf] = Inr r
        \<and> sr_total_flops r = Fin 30
        \<and> sr_total_latency_ms r = PInf
        \<and> sr_peak_memory_bytes r = Fin 8
        \<and> sr_bottleneck_layer r = Some ''d'')"
  using aggregate_nonempty [of
          "[example_execution ''a'' (Fin 10) (Fin 1) (Fin 1) (Fin 5),
            example_execution ''b'' (Fin 20) (Fin 4) (Fin 4) (Fin 9),
            example_execution ''c'' (Fin 30) (Fin 2) (Fin 2) (Fin 9)]"]
    aggregate_nonempty [of
          "[example_execution ''a'' (Fin 10) (Fin 1) (Fin 1) (Fin 5),
            example_execution ''d'' (Fin 20) (Fin 4) (Fin 4) PInf]"]
  by (simp add: example_execution_def aggregate_def peak_memory_def bottleneck_layer_def
      py_sum_def py_max_def fgt_def)

end
